theory Spec2Isabelle
  imports Main
begin

section \<open>Chat Session Manager: the state coordinator of the chat-with-PDF front end\<close>

text \<open>
  The repository holds the React component \<^verbatim>\<open>ChatApp\<close> in several near-identical
  versions. The two that work with remote sessions are embedded here:
  \<^verbatim>\<open>src/components/chatapp/ChatApp.tsx\<close> (definitions without suffix) and the first
  component of \<^verbatim>\<open>part_000\<close> (definitions with the suffix \<open>_part0\<close>). The second
  component of \<^verbatim>\<open>part_000\<close>, which addresses documents by file name, is not embedded.

  Component state (the \<^verbatim>\<open>useState\<close> cells) is a record that each handler takes and
  returns. What the outside world answers (the outcome of every \<^verbatim>\<open>fetch\<close>, the clock,
  the random identifier) is an argument of the handler, and every handler also returns
  the list of requests it issued, in order. An \<^verbatim>\<open>async\<close> handler is first modelled as one
  run from call to completion; the interleaving of several pending handlers is the step
  relation \<open>reach\<close> further down. Every value thrown in the handlers is an \<^verbatim>\<open>Error\<close>,
  so the \<^verbatim>\<open>catch\<close> blocks always take its message.
\<close>

subsection \<open>Data model\<close>

datatype role = User | Bot

record source =
  src_content :: string
  src_source :: string
  src_type :: string

record message =
  role :: role
  content :: string
  timestamp :: nat
  sources :: "source list option"

record document =
  doc_id :: string
  name :: string
  doc_size :: nat
  uploaded :: bool
  progress :: nat
  selected :: bool
  sessionId :: "string option"
  error :: "string option"

record session_info =
  si_session_id :: string
  total_documents :: nat
  has_vectorstore :: bool
  has_chain :: bool
  document_names :: "string list"
  chat_history_length :: nat
  created_at :: string

datatype backend_status = Unknown | Healthy | Unhealthy

record state =
  messages :: "message list"
  input :: string
  loading :: bool
  documents :: "document list"
  apiError :: string
  backendStatus :: backend_status
  sessionInfo :: "session_info option"

text \<open>The value of every \<^verbatim>\<open>useState\<close> cell when the component mounts.\<close>

definition initial :: state where
  "initial = \<lparr>messages = [], input = [], loading = False, documents = [], apiError = [],
     backendStatus = Unknown, sessionInfo = None\<rparr>"

record js_file =
  file_name :: string
  file_type :: string
  file_size :: nat

subsection \<open>The remote side\<close>

text \<open>
  A JSON object as the handlers read it: only the fields they look at, each absent
  (\<open>None\<close>) or a value of the type the component's interfaces declare. A body that
  is valid JSON but no object and not \<^verbatim>\<open>null\<close> has none of the fields, so it reads as
  the object with every field absent.
\<close>

record jobj =
  error_field :: "string option"
  answer :: "string option"
  sources_field :: "source list option"
  session_id :: "string option"
  session_info_field :: "session_info option"

text \<open>
  What \<^verbatim>\<open>await res.json()\<close> gives: a rejection with the parser's message, \<^verbatim>\<open>null\<close>, or
  a value. The outcome of \<^verbatim>\<open>await fetch(...)\<close> is a rejection (an \<^verbatim>\<open>Error\<close> with a
  message) or a response with its status, status text and body.
\<close>

datatype 'a body = Unparsable string | JNull | JVal 'a

datatype 'a fetch_result = NetworkError string | Response nat string "'a body"

datatype request =
    GetHealth
  | GetSessionInfo string
  | PostChat "string option" string
  | PostCreateSession
  | PostUploadPdf "string option" js_file
  | DeleteClearSession string

text \<open>\<^verbatim>\<open>Response.ok\<close>: the status is in the range 200 to 299.\<close>

definition res_ok :: "nat \<Rightarrow> bool" where
  "res_ok st \<longleftrightarrow> 200 \<le> st \<and> st \<le> 299"

subsection \<open>JavaScript strings\<close>

text \<open>
  Truthiness of an optional string (\<^verbatim>\<open>undefined\<close> and \<^verbatim>\<open>""\<close> are falsy) and the
  operator \<^verbatim>\<open>x || d\<close> on one.
\<close>

definition truthy :: "string option \<Rightarrow> bool" where
  "truthy x = (case x of None \<Rightarrow> False | Some v \<Rightarrow> v \<noteq> [])"

definition or_else :: "string option \<Rightarrow> string \<Rightarrow> string" where
  "or_else x d = (case x of None \<Rightarrow> d | Some v \<Rightarrow> if v = [] then d else v)"

text \<open>
  \<^verbatim>\<open>String.prototype.trim\<close> strips white space and line terminators from both ends. A
  \<open>char\<close> is a code unit below 256; of these, 9 to 13, 32 and 160 are stripped.
\<close>

definition js_whitespace :: "char \<Rightarrow> bool" where
  "js_whitespace c = (let n = (of_char c :: nat) in (9 \<le> n \<and> n \<le> 13) \<or> n = 32 \<or> n = 160)"

definition trim :: "string \<Rightarrow> string" where
  "trim s = rev (dropWhile js_whitespace (rev (dropWhile js_whitespace s)))"

text \<open>A number in a template literal: its decimal digits.\<close>

fun string_of_nat :: "nat \<Rightarrow> string" where
  "string_of_nat n =
     (if n < 10 then [''0123456789'' ! n]
      else string_of_nat (n div 10) @ [''0123456789'' ! (n mod 10)])"

declare string_of_nat.simps [simp del]

text \<open>
  The message of the \<^verbatim>\<open>TypeError\<close> thrown when a property of \<^verbatim>\<open>null\<close> is read. The engine
  chooses the text; this is the one V8 gives, without its quotation marks.
\<close>

definition null_property_error :: "string \<Rightarrow> string" where
  "null_property_error prop = ''Cannot read properties of null (reading '' @ prop @ '')''"

subsection \<open>Health check (\<^verbatim>\<open>checkHealth\<close>)\<close>

text \<open>
  \<^verbatim>\<open>ChatApp.tsx\<close>, lines 80 to 94: on an ok response the body is parsed before the status
  is set, so a body that does not parse throws into the \<^verbatim>\<open>catch\<close>.
\<close>

definition checkHealth :: "state \<Rightarrow> jobj fetch_result \<Rightarrow> state \<times> request list" where
  "checkHealth s res =
     (case res of
        NetworkError m \<Rightarrow> (s\<lparr>backendStatus := Unhealthy\<rparr>, [GetHealth])
      | Response st stt b \<Rightarrow>
          if res_ok st then
            (case b of
               Unparsable m \<Rightarrow> (s\<lparr>backendStatus := Unhealthy\<rparr>, [GetHealth])
             | JNull \<Rightarrow> (s\<lparr>backendStatus := Healthy\<rparr>, [GetHealth])
             | JVal d \<Rightarrow> (s\<lparr>backendStatus := Healthy\<rparr>, [GetHealth]))
          else (s\<lparr>backendStatus := Unhealthy\<rparr>, [GetHealth]))"

text \<open>\<^verbatim>\<open>part_000\<close>, lines 61 to 68: the body is never read.\<close>

definition checkHealth_part0 :: "state \<Rightarrow> jobj fetch_result \<Rightarrow> state \<times> request list" where
  "checkHealth_part0 s res =
     (case res of
        NetworkError m \<Rightarrow> (s\<lparr>backendStatus := Unhealthy\<rparr>, [GetHealth])
      | Response st stt b \<Rightarrow>
          (s\<lparr>backendStatus := (if res_ok st then Healthy else Unhealthy)\<rparr>, [GetHealth]))"

subsection \<open>Chat (\<^verbatim>\<open>sendMessage\<close>)\<close>

text \<open>
  \<^verbatim>\<open>updateSessionInfo\<close> (\<^verbatim>\<open>ChatApp.tsx\<close>, lines 98 to 108): the summary is stored only from an
  ok response whose body parses; every failure is swallowed.
\<close>

definition updateSessionInfo ::
    "state \<Rightarrow> string \<Rightarrow> session_info fetch_result \<Rightarrow> state \<times> request list" where
  "updateSessionInfo s sid res =
     (case res of
        NetworkError m \<Rightarrow> (s, [GetSessionInfo sid])
      | Response st stt b \<Rightarrow>
          if res_ok st then
            (case b of
               Unparsable m \<Rightarrow> (s, [GetSessionInfo sid])
             | JNull \<Rightarrow> (s\<lparr>sessionInfo := None\<rparr>, [GetSessionInfo sid])
             | JVal info \<Rightarrow> (s\<lparr>sessionInfo := Some info\<rparr>, [GetSessionInfo sid]))
          else (s, [GetSessionInfo sid]))"

text \<open>
  The \<^verbatim>\<open>try\<close> block of \<^verbatim>\<open>sendMessage\<close> up to the point where the answer is read
  (\<^verbatim>\<open>ChatApp.tsx\<close>, lines 121 to 147): \<open>Inl\<close> is the message of the \<^verbatim>\<open>Error\<close> thrown,
  \<open>Inr\<close> the parsed data. On a response that is not ok, a body that does not parse, or
  is \<^verbatim>\<open>null\<close>, throws inside the inner \<^verbatim>\<open>try\<close>, whose \<^verbatim>\<open>catch\<close> puts status and status
  text in the message.
\<close>

definition chat_try :: "jobj fetch_result \<Rightarrow> string + jobj" where
  "chat_try res =
     (case res of
        NetworkError m \<Rightarrow> Inl m
      | Response st stt b \<Rightarrow>
          if \<not> res_ok st then
            (case b of
               JVal d \<Rightarrow> Inl (or_else (error_field d) (''API error: '' @ string_of_nat st))
             | _ \<Rightarrow> Inl (string_of_nat st @ '': '' @ stt))
          else
            (case b of
               Unparsable m \<Rightarrow> Inl m
             | JNull \<Rightarrow> Inl (null_property_error ''answer'')
             | JVal d \<Rightarrow> Inr d))"

text \<open>The same in \<^verbatim>\<open>part_000\<close>, lines 83 to 101: the inner \<^verbatim>\<open>catch\<close> is empty.\<close>

definition chat_try_part0 :: "jobj fetch_result \<Rightarrow> string + jobj" where
  "chat_try_part0 res =
     (case res of
        NetworkError m \<Rightarrow> Inl m
      | Response st stt b \<Rightarrow>
          if \<not> res_ok st then
            (case b of
               JVal d \<Rightarrow> Inl (or_else (error_field d) (''API error: '' @ string_of_nat st))
             | _ \<Rightarrow> Inl (''API error: '' @ string_of_nat st))
          else
            (case b of
               Unparsable m \<Rightarrow> Inl m
             | JNull \<Rightarrow> Inl (null_property_error ''answer'')
             | JVal d \<Rightarrow> Inr d))"

definition apology :: string where
  "apology = ''I encountered an error while processing your question. Please try again.''"

definition apology_part0 :: string where
  "apology_part0 = ''Error processing request. Please try again.''"

text \<open>
  \<^verbatim>\<open>sendMessage\<close> of \<^verbatim>\<open>ChatApp.tsx\<close>, lines 110 to 173. \<open>t1\<close> and \<open>t2\<close> are the clock
  readings of the two \<^verbatim>\<open>new Date()\<close>, \<open>res\<close> answers the chat request and \<open>info\<close> the
  session-summary request that follows a successful answer.
\<close>

definition sendMessage ::
    "state \<Rightarrow> nat \<Rightarrow> nat \<Rightarrow> jobj fetch_result \<Rightarrow> session_info fetch_result
       \<Rightarrow> state \<times> request list" where
  "sendMessage s t1 t2 res info =
     (case find (\<lambda>d. selected d \<and> uploaded d) (documents s) of
        None \<Rightarrow> (s, [])
      | Some sel \<Rightarrow>
          if trim (input s) = [] then (s, [])
          else
            let userMsg = \<lparr>role = User, content = input s, timestamp = t1, sources = None\<rparr>;
                s1 = s\<lparr>messages := messages s @ [userMsg], input := [], loading := True,
                       apiError := []\<rparr>;
                req = PostChat (sessionId sel) (input s)
            in (case chat_try res of
                  Inl errorMessage \<Rightarrow>
                    (s1\<lparr>apiError := errorMessage,
                        messages := messages s1 @
                          [\<lparr>role = Bot, content = apology, timestamp = t2, sources = Some []\<rparr>],
                        loading := False\<rparr>, [req])
                | Inr d \<Rightarrow>
                    let botMsg = \<lparr>role = Bot,
                                  content = or_else (answer d) ''No response received'',
                                  timestamp = t2,
                                  sources = Some (case sources_field d of None \<Rightarrow> [] | Some l \<Rightarrow> l)\<rparr>;
                        s2 = s1\<lparr>messages := messages s1 @ [botMsg]\<rparr>
                    in (case sessionId sel of
                          None \<Rightarrow> (s2\<lparr>loading := False\<rparr>, [req])
                        | Some sid \<Rightarrow>
                            if sid = [] then (s2\<lparr>loading := False\<rparr>, [req])
                            else
                              let (s3, reqs) = updateSessionInfo s2 sid info
                              in (s3\<lparr>loading := False\<rparr>, req # reqs))))"

text \<open>\<^verbatim>\<open>sendMessage\<close> of \<^verbatim>\<open>part_000\<close>, lines 72 to 118: messages carry no sources.\<close>

definition sendMessage_part0 ::
    "state \<Rightarrow> nat \<Rightarrow> nat \<Rightarrow> jobj fetch_result \<Rightarrow> state \<times> request list" where
  "sendMessage_part0 s t1 t2 res =
     (case find (\<lambda>d. selected d \<and> uploaded d) (documents s) of
        None \<Rightarrow> (s, [])
      | Some sel \<Rightarrow>
          if trim (input s) = [] then (s, [])
          else
            let userMsg = \<lparr>role = User, content = input s, timestamp = t1, sources = None\<rparr>;
                s1 = s\<lparr>messages := messages s @ [userMsg], input := [], loading := True,
                       apiError := []\<rparr>;
                req = PostChat (sessionId sel) (input s)
            in (case chat_try_part0 res of
                  Inl errorMessage \<Rightarrow>
                    (s1\<lparr>apiError := errorMessage,
                        messages := messages s1 @
                          [\<lparr>role = Bot, content = apology_part0, timestamp = t2, sources = None\<rparr>],
                        loading := False\<rparr>, [req])
                | Inr d \<Rightarrow>
                    (s1\<lparr>messages := messages s1 @
                          [\<lparr>role = Bot, content = or_else (answer d) ''No response received'',
                            timestamp = t2, sources = None\<rparr>],
                        loading := False\<rparr>, [req])))"

subsection \<open>Registry updates\<close>

text \<open>
  The updater functions the handlers pass to \<^verbatim>\<open>setDocuments\<close>. Each one looks a document
  up by identifier and replaces that entry; a registry with no such entry is unchanged.
\<close>

definition update_doc :: "string \<Rightarrow> (document \<Rightarrow> document) \<Rightarrow> document list \<Rightarrow> document list" where
  "update_doc i g ds = map (\<lambda>d. if doc_id d = i then g d else d) ds"

definition set_progress :: "string \<Rightarrow> nat \<Rightarrow> document list \<Rightarrow> document list" where
  "set_progress i p ds = map (\<lambda>d. if doc_id d = i then d\<lparr>progress := p\<rparr> else d) ds"

definition set_session ::
    "string \<Rightarrow> nat \<Rightarrow> string option \<Rightarrow> document list \<Rightarrow> document list" where
  "set_session i p sid ds =
     map (\<lambda>d. if doc_id d = i then d\<lparr>progress := p, sessionId := sid\<rparr> else d) ds"

definition set_complete :: "string \<Rightarrow> document list \<Rightarrow> document list" where
  "set_complete i ds =
     map (\<lambda>d. if doc_id d = i then d\<lparr>progress := 100, uploaded := True\<rparr> else d) ds"

text \<open>The \<^verbatim>\<open>catch\<close> of an upload: \<^verbatim>\<open>ChatApp.tsx\<close>, lines 261 to 268, and \<^verbatim>\<open>part_000\<close>, lines 172 to 174.\<close>

definition set_failed :: "string \<Rightarrow> string \<Rightarrow> document list \<Rightarrow> document list" where
  "set_failed i m ds =
     map (\<lambda>d. if doc_id d = i then d\<lparr>error := Some m, progress := 0, uploaded := False\<rparr> else d) ds"

definition set_failed_part0 :: "string \<Rightarrow> string \<Rightarrow> document list \<Rightarrow> document list" where
  "set_failed_part0 i m ds =
     map (\<lambda>d. if doc_id d = i then d\<lparr>error := Some (''Failed: '' @ m), progress := 0\<rparr> else d) ds"

definition without :: "string \<Rightarrow> document list \<Rightarrow> document list" where
  "without i ds = filter (\<lambda>d. doc_id d \<noteq> i) ds"

definition toggled :: "string \<Rightarrow> document list \<Rightarrow> document list" where
  "toggled i ds = map (\<lambda>d. d\<lparr>selected := (if doc_id d = i then \<not> selected d else False)\<rparr>) ds"

definition new_document :: "string \<Rightarrow> js_file \<Rightarrow> document" where
  "new_document i f = \<lparr>doc_id = i, name = file_name f, doc_size = file_size f, uploaded = False,
     progress = 0, selected = False, sessionId = None, error = None\<rparr>"

subsection \<open>Upload (\<^verbatim>\<open>handleFileUpload\<close>)\<close>

text \<open>
  What the outside world supplies to one iteration of the loop over the files: the
  identifier drawn from \<^verbatim>\<open>Math.random\<close>, the answer to the create-session request and the
  answer to the upload request.
\<close>

record upload_env =
  new_id :: string
  session_res :: "jobj fetch_result"
  upload_res :: "jobj fetch_result"

definition max_size :: nat where
  "max_size = 10 * 1024 * 1024"

text \<open>
  Phase 1 of \<^verbatim>\<open>ChatApp.tsx\<close> (lines 211 to 222): \<open>Inl\<close> is the message thrown, \<open>Inr\<close> the
  session data. The error body is read with \<^verbatim>\<open>.json().catch(() => ({}))\<close>, so a body
  that does not parse gives the fallback text, and a \<^verbatim>\<open>null\<close> body throws at the
  property read.
\<close>

definition create_session_try :: "jobj fetch_result \<Rightarrow> string + jobj" where
  "create_session_try res =
     (case res of
        NetworkError m \<Rightarrow> Inl m
      | Response st stt b \<Rightarrow>
          if \<not> res_ok st then
            (case b of
               Unparsable m \<Rightarrow> Inl (''Session creation failed: '' @ string_of_nat st)
             | JNull \<Rightarrow> Inl (null_property_error ''error'')
             | JVal d \<Rightarrow>
                 Inl (or_else (error_field d) (''Session creation failed: '' @ string_of_nat st)))
          else
            (case b of
               Unparsable m \<Rightarrow> Inl m
             | JNull \<Rightarrow> Inl (null_property_error ''session_id'')
             | JVal d \<Rightarrow> Inr d))"

text \<open>
  Phase 2 of \<^verbatim>\<open>ChatApp.tsx\<close> (lines 233 to 243): \<open>Inr None\<close> is an ok response whose
  body is \<^verbatim>\<open>null\<close>, which is read only after the document has been marked uploaded.
\<close>

definition upload_try :: "jobj fetch_result \<Rightarrow> string + jobj option" where
  "upload_try res =
     (case res of
        NetworkError m \<Rightarrow> Inl m
      | Response st stt b \<Rightarrow>
          if \<not> res_ok st then
            (case b of
               Unparsable m \<Rightarrow> Inl (''Upload failed: '' @ string_of_nat st @ '' '' @ stt)
             | JNull \<Rightarrow> Inl (null_property_error ''error'')
             | JVal d \<Rightarrow>
                 Inl (or_else (error_field d)
                        (''Upload failed: '' @ string_of_nat st @ '' '' @ stt)))
          else
            (case b of
               Unparsable m \<Rightarrow> Inl m
             | JNull \<Rightarrow> Inr None
             | JVal d \<Rightarrow> Inr (Some d)))"

definition upload_failed :: "state \<Rightarrow> js_file \<Rightarrow> string \<Rightarrow> string \<Rightarrow> state" where
  "upload_failed s f i m =
     s\<lparr>documents := set_failed i m (documents s),
       apiError := ''Failed to upload '' @ file_name f @ '': '' @ m\<rparr>"

text \<open>The body of the loop over the files, \<^verbatim>\<open>ChatApp.tsx\<close>, lines 180 to 272.\<close>

definition upload_one :: "state \<Rightarrow> js_file \<Rightarrow> upload_env \<Rightarrow> state \<times> request list" where
  "upload_one s f e =
     (if file_type f \<noteq> ''application/pdf'' then
        (s\<lparr>apiError := file_name f @ '' is not a PDF file. Only PDF files are allowed.''\<rparr>, [])
      else if file_size f > max_size then
        (s\<lparr>apiError := file_name f @ '' is too large. Maximum size is 10MB.''\<rparr>, [])
      else
        let i = new_id e;
            s1 = s\<lparr>documents := set_progress i 25 (documents s @ [new_document i f])\<rparr>
        in (case create_session_try (session_res e) of
              Inl m \<Rightarrow> (upload_failed s1 f i m, [PostCreateSession])
            | Inr sd \<Rightarrow>
                let sid = session_id sd;
                    s2 = s1\<lparr>documents := set_session i 50 sid (documents s1)\<rparr>;
                    reqs = [PostCreateSession, PostUploadPdf sid f]
                in (case upload_try (upload_res e) of
                      Inl m \<Rightarrow> (upload_failed s2 f i m, reqs)
                    | Inr data \<Rightarrow>
                        let s3 = s2\<lparr>documents := set_complete i (documents s2)\<rparr>
                        in (case data of
                              None \<Rightarrow>
                                (upload_failed s3 f i (null_property_error ''session_info''), reqs)
                            | Some d \<Rightarrow>
                                (case session_info_field d of
                                   None \<Rightarrow> (s3, reqs)
                                 | Some si \<Rightarrow> (s3\<lparr>sessionInfo := Some si\<rparr>, reqs))))))"

text \<open>
  The loop awaits each file before it takes the next, so a batch is processed in order.
  Every file comes paired with what the outside world supplies to its iteration.
\<close>

fun upload_loop :: "state \<Rightarrow> (js_file \<times> upload_env) list \<Rightarrow> state \<times> request list" where
  "upload_loop s [] = (s, [])"
| "upload_loop s ((f, e) # rest) =
     (let (s1, r1) = upload_one s f e;
          (s2, r2) = upload_loop s1 rest
      in (s2, r1 @ r2))"

definition handleFileUpload ::
    "state \<Rightarrow> (js_file \<times> upload_env) list option \<Rightarrow> state \<times> request list" where
  "handleFileUpload s files =
     (case files of
        None \<Rightarrow> (s, [])
      | Some fs \<Rightarrow> upload_loop (s\<lparr>apiError := []\<rparr>) fs)"

text \<open>
  The same handler in \<^verbatim>\<open>part_000\<close>, lines 120 to 179. Phase 1 throws a fixed text on a
  response that is not ok and destructures the parsed body; phase 2 never reads the body
  of an ok response.
\<close>

definition create_session_try_part0 :: "jobj fetch_result \<Rightarrow> string + string option" where
  "create_session_try_part0 res =
     (case res of
        NetworkError m \<Rightarrow> Inl m
      | Response st stt b \<Rightarrow>
          if \<not> res_ok st then Inl ''Session creation failed''
          else
            (case b of
               Unparsable m \<Rightarrow> Inl m
             | JNull \<Rightarrow> Inl (null_property_error ''session_id'')
             | JVal d \<Rightarrow> Inr (session_id d)))"

definition upload_try_part0 :: "jobj fetch_result \<Rightarrow> string option" where
  "upload_try_part0 res =
     (case res of
        NetworkError m \<Rightarrow> Some m
      | Response st stt b \<Rightarrow>
          if \<not> res_ok st then
            (case b of
               JVal d \<Rightarrow>
                 Some (or_else (error_field d) (''Upload failed ('' @ string_of_nat st @ '')''))
             | _ \<Rightarrow> Some (''Upload failed ('' @ string_of_nat st @ '')''))
          else None)"

definition upload_one_part0 :: "state \<Rightarrow> js_file \<Rightarrow> upload_env \<Rightarrow> state \<times> request list" where
  "upload_one_part0 s f e =
     (if file_type f \<noteq> ''application/pdf'' then (s\<lparr>apiError := ''PDF files only''\<rparr>, [])
      else if file_size f > max_size then
        (s\<lparr>apiError := file_name f @ '' too large (max 10MB)''\<rparr>, [])
      else
        let i = new_id e;
            s1 = s\<lparr>documents := set_progress i 30 (documents s @ [new_document i f])\<rparr>
        in (case create_session_try_part0 (session_res e) of
              Inl m \<Rightarrow> (s1\<lparr>documents := set_failed_part0 i m (documents s1)\<rparr>, [PostCreateSession])
            | Inr sid \<Rightarrow>
                let s2 = s1\<lparr>documents := set_session i 60 sid (documents s1)\<rparr>;
                    reqs = [PostCreateSession, PostUploadPdf sid f]
                in (case upload_try_part0 (upload_res e) of
                      Some m \<Rightarrow> (s2\<lparr>documents := set_failed_part0 i m (documents s2)\<rparr>, reqs)
                    | None \<Rightarrow> (s2\<lparr>documents := set_complete i (documents s2)\<rparr>, reqs))))"

fun upload_loop_part0 :: "state \<Rightarrow> (js_file \<times> upload_env) list \<Rightarrow> state \<times> request list" where
  "upload_loop_part0 s [] = (s, [])"
| "upload_loop_part0 s ((f, e) # rest) =
     (let (s1, r1) = upload_one_part0 s f e;
          (s2, r2) = upload_loop_part0 s1 rest
      in (s2, r1 @ r2))"

definition handleFileUpload_part0 ::
    "state \<Rightarrow> (js_file \<times> upload_env) list option \<Rightarrow> state \<times> request list" where
  "handleFileUpload_part0 s files =
     (case files of
        None \<Rightarrow> (s, [])
      | Some fs \<Rightarrow> upload_loop_part0 (s\<lparr>apiError := []\<rparr>) fs)"

subsection \<open>Deletion (\<^verbatim>\<open>removeDocument\<close>)\<close>

text \<open>
  The teardown request of \<^verbatim>\<open>ChatApp.tsx\<close> (lines 283 to 290): \<open>Some\<close> is the message
  thrown, \<open>None\<close> a successful teardown.
\<close>

definition delete_try :: "jobj fetch_result \<Rightarrow> string option" where
  "delete_try res =
     (case res of
        NetworkError m \<Rightarrow> Some m
      | Response st stt b \<Rightarrow>
          if \<not> res_ok st then
            (case b of
               Unparsable m \<Rightarrow> Some (''Delete failed: '' @ string_of_nat st)
             | JNull \<Rightarrow> Some (null_property_error ''error'')
             | JVal d \<Rightarrow> Some (or_else (error_field d) (''Delete failed: '' @ string_of_nat st)))
          else None)"

text \<open>
  After the \<^verbatim>\<open>try\<close> body went through (\<^verbatim>\<open>ChatApp.tsx\<close>, lines 296 to 299): the session
  summary is dropped when the removed document was the selected one.
\<close>

definition clear_info_if_selected :: "document list \<Rightarrow> string \<Rightarrow> state \<Rightarrow> state" where
  "clear_info_if_selected originalDocuments i s =
     (case find (\<lambda>d. doc_id d = i) originalDocuments of
        None \<Rightarrow> s
      | Some removedDoc \<Rightarrow> if selected removedDoc then s\<lparr>sessionInfo := None\<rparr> else s)"

text \<open>
  \<^verbatim>\<open>removeDocument\<close> of \<^verbatim>\<open>ChatApp.tsx\<close>, lines 275 to 308. The snapshot is the registry
  the handler was created with, which is the registry on screen when the button is
  pressed. The second argument is what the caller passes as session identifier; the
  request is issued only when it is truthy.
\<close>

definition removeDocument ::
    "state \<Rightarrow> string \<Rightarrow> string option \<Rightarrow> jobj fetch_result \<Rightarrow> state \<times> request list" where
  "removeDocument s i sid res =
     (let originalDocuments = documents s;
          s1 = s\<lparr>documents := without i (documents s)\<rparr>
      in (case sid of
            None \<Rightarrow> (clear_info_if_selected originalDocuments i s1, [])
          | Some v \<Rightarrow>
              if v = [] then (clear_info_if_selected originalDocuments i s1, [])
              else
                (case delete_try res of
                   None \<Rightarrow> (clear_info_if_selected originalDocuments i s1, [DeleteClearSession v])
                 | Some m \<Rightarrow>
                     (s1\<lparr>documents := originalDocuments,
                         apiError := ''Failed to remove document: '' @ m\<rparr>,
                      [DeleteClearSession v]))))"

text \<open>
  \<^verbatim>\<open>removeDocument\<close> of \<^verbatim>\<open>part_000\<close>, lines 181 to 198: the snapshot is put back inside
  the branch for a response that is not ok; the \<^verbatim>\<open>catch\<close> only sets the banner.
\<close>

definition removeDocument_part0 ::
    "state \<Rightarrow> string \<Rightarrow> string option \<Rightarrow> jobj fetch_result \<Rightarrow> state \<times> request list" where
  "removeDocument_part0 s i sid res =
     (let original = documents s;
          s1 = s\<lparr>documents := without i (documents s)\<rparr>
      in (case sid of
            None \<Rightarrow> (s1, [])
          | Some v \<Rightarrow>
              if v = [] then (s1, [])
              else
                (case res of
                   NetworkError m \<Rightarrow>
                     (s1\<lparr>apiError := ''Remove failed: '' @ m\<rparr>, [DeleteClearSession v])
                 | Response st stt b \<Rightarrow>
                     if \<not> res_ok st then
                       (s1\<lparr>documents := original,
                           apiError := ''Remove failed: '' @ ''Delete failed ('' @ string_of_nat st @ '')''\<rparr>,
                        [DeleteClearSession v])
                     else (s1, [DeleteClearSession v]))))"

subsection \<open>Selection (\<^verbatim>\<open>toggleSelection\<close>)\<close>

text \<open>
  \<^verbatim>\<open>toggleSelection\<close> of \<^verbatim>\<open>ChatApp.tsx\<close>, lines 310 to 323. The registry update looks at
  nothing but the identifier. The session summary is fetched (not awaited) for an
  uploaded document with a session identifier, and dropped otherwise.
\<close>

definition toggleSelection ::
    "state \<Rightarrow> string \<Rightarrow> session_info fetch_result \<Rightarrow> state \<times> request list" where
  "toggleSelection s i info =
     (let s1 = s\<lparr>documents := toggled i (documents s)\<rparr>
      in (case find (\<lambda>d. doc_id d = i) (documents s) of
            None \<Rightarrow> (s1\<lparr>sessionInfo := None\<rparr>, [])
          | Some selectedDoc \<Rightarrow>
              (case sessionId selectedDoc of
                 None \<Rightarrow> (s1\<lparr>sessionInfo := None\<rparr>, [])
               | Some sid \<Rightarrow>
                   if sid \<noteq> [] \<and> uploaded selectedDoc then updateSessionInfo s1 sid info
                   else (s1\<lparr>sessionInfo := None\<rparr>, []))))"

text \<open>\<^verbatim>\<open>toggleSelection\<close> of \<^verbatim>\<open>part_000\<close>, lines 200 to 205.\<close>

definition toggleSelection_part0 :: "state \<Rightarrow> string \<Rightarrow> state" where
  "toggleSelection_part0 s i = s\<lparr>documents := toggled i (documents s)\<rparr>"

text \<open>
  The control surface (\<^verbatim>\<open>ChatApp.tsx\<close>, line 438, and \<^verbatim>\<open>part_000\<close>, line 313): the selection
  button of a document is disabled unless the document is uploaded and has no error.
\<close>

definition selection_enabled :: "document \<Rightarrow> bool" where
  "selection_enabled d \<longleftrightarrow> \<not> (\<not> uploaded d \<or> truthy (error d))"

subsection \<open>Pending handlers and the reachable registries\<close>

text \<open>
  Between two \<^verbatim>\<open>await\<close>s a handler runs without interruption; at an \<^verbatim>\<open>await\<close> any other
  handler may run. The system state is the registry together with the handlers that are
  waiting for an answer: each upload with the identifier of its document and the request
  it waits for, each removal with the snapshot it took. \<open>issued\<close> records the
  identifiers drawn so far: the generator is taken never to return an identifier twice
  (the source draws nine random base-36 digits and does not check).

  A step is one uninterrupted piece of a handler, with the registry update of that piece
  of the source. The two versions differ in the progress milestones and in the update of
  a failed upload. With the flag \<open>ui\<close> set, events come only from the control
  surface: the selection button of a document fires only while it is enabled, and the
  remove button of a document passes that document's identifier and session identifier.
  Without it the handlers may be called with any arguments.
\<close>

datatype version = ChatApp_tsx | Part_000

definition first_progress :: "version \<Rightarrow> nat" where
  "first_progress v = (case v of ChatApp_tsx \<Rightarrow> 25 | Part_000 \<Rightarrow> 30)"

definition second_progress :: "version \<Rightarrow> nat" where
  "second_progress v = (case v of ChatApp_tsx \<Rightarrow> 50 | Part_000 \<Rightarrow> 60)"

definition failed_docs :: "version \<Rightarrow> string \<Rightarrow> string \<Rightarrow> document list \<Rightarrow> document list" where
  "failed_docs v i m ds = (case v of ChatApp_tsx \<Rightarrow> set_failed i m ds | Part_000 \<Rightarrow> set_failed_part0 i m ds)"

datatype phase = AwaitSession | AwaitUpload

record sys =
  registry :: "document list"
  uploading :: "(string \<times> phase) list"
  removing :: "document list list"
  issued :: "string set"

inductive reach :: "version \<Rightarrow> bool \<Rightarrow> sys \<Rightarrow> bool" for v :: version and ui :: bool where
  mount: "reach v ui \<lparr>registry = [], uploading = [], removing = [], issued = {}\<rparr>"
| upload_start:
    "reach v ui s \<Longrightarrow> file_type f = ''application/pdf'' \<Longrightarrow> \<not> file_size f > max_size \<Longrightarrow>
     i \<notin> issued s \<Longrightarrow>
     reach v ui (s\<lparr>registry := set_progress i (first_progress v) (registry s @ [new_document i f]),
                   uploading := (i, AwaitSession) # uploading s,
                   issued := insert i (issued s)\<rparr>)"
| session_created:
    "reach v ui s \<Longrightarrow> (i, AwaitSession) \<in> set (uploading s) \<Longrightarrow>
     reach v ui (s\<lparr>registry := set_session i (second_progress v) sid (registry s),
                   uploading := (i, AwaitUpload) # remove1 (i, AwaitSession) (uploading s)\<rparr>)"
| session_failed:
    "reach v ui s \<Longrightarrow> (i, AwaitSession) \<in> set (uploading s) \<Longrightarrow>
     reach v ui (s\<lparr>registry := failed_docs v i m (registry s),
                   uploading := remove1 (i, AwaitSession) (uploading s)\<rparr>)"
| upload_done:
    "reach v ui s \<Longrightarrow> (i, AwaitUpload) \<in> set (uploading s) \<Longrightarrow>
     reach v ui (s\<lparr>registry := set_complete i (registry s),
                   uploading := remove1 (i, AwaitUpload) (uploading s)\<rparr>)"
| upload_failed:
    "reach v ui s \<Longrightarrow> (i, AwaitUpload) \<in> set (uploading s) \<Longrightarrow>
     reach v ui (s\<lparr>registry := failed_docs v i m (registry s),
                   uploading := remove1 (i, AwaitUpload) (uploading s)\<rparr>)"
| upload_done_then_failed:
    "reach v ui s \<Longrightarrow> (i, AwaitUpload) \<in> set (uploading s) \<Longrightarrow> v = ChatApp_tsx \<Longrightarrow>
     reach v ui (s\<lparr>registry := set_failed i m (set_complete i (registry s)),
                   uploading := remove1 (i, AwaitUpload) (uploading s)\<rparr>)"
| toggle:
    "reach v ui s \<Longrightarrow>
     (ui \<longrightarrow> (\<exists>d \<in> set (registry s). doc_id d = i \<and> selection_enabled d)) \<Longrightarrow>
     reach v ui (s\<lparr>registry := toggled i (registry s)\<rparr>)"
| remove_local:
    "reach v ui s \<Longrightarrow> \<not> truthy sid \<Longrightarrow>
     (ui \<longrightarrow> (\<exists>d \<in> set (registry s). doc_id d = i \<and> sessionId d = sid)) \<Longrightarrow>
     reach v ui (s\<lparr>registry := without i (registry s)\<rparr>)"
| remove_start:
    "reach v ui s \<Longrightarrow> truthy sid \<Longrightarrow>
     (ui \<longrightarrow> (\<exists>d \<in> set (registry s). doc_id d = i \<and> sessionId d = sid)) \<Longrightarrow>
     reach v ui (s\<lparr>registry := without i (registry s), removing := registry s # removing s\<rparr>)"
| remove_final:
    "reach v ui s \<Longrightarrow> snap \<in> set (removing s) \<Longrightarrow>
     reach v ui (s\<lparr>removing := remove1 snap (removing s)\<rparr>)"
| remove_reverted:
    "reach v ui s \<Longrightarrow> snap \<in> set (removing s) \<Longrightarrow>
     reach v ui (s\<lparr>registry := snap, removing := remove1 snap (removing s)\<rparr>)"

text \<open>
  What the proofs about reachable states carry along, for the registry and for every
  snapshot still held by a pending removal: identifiers are pairwise different and have
  all been issued, at most one document is selected, a document with an error is not
  uploaded, the document of a pending upload is neither uploaded nor in error, and under
  the control surface only an uploaded document without error is selected.
\<close>

definition doc_ok :: "bool \<Rightarrow> string set \<Rightarrow> string set \<Rightarrow> document \<Rightarrow> bool" where
  "doc_ok ui iss pend d \<longleftrightarrow>
     doc_id d \<in> iss \<and> (error d \<noteq> None \<longrightarrow> \<not> uploaded d) \<and>
     (doc_id d \<in> pend \<longrightarrow> \<not> uploaded d \<and> error d = None) \<and>
     (ui \<longrightarrow> selected d \<longrightarrow> uploaded d \<and> error d = None)"

definition reg_ok :: "bool \<Rightarrow> string set \<Rightarrow> string set \<Rightarrow> document list \<Rightarrow> bool" where
  "reg_ok ui iss pend ds \<longleftrightarrow>
     distinct (map doc_id ds) \<and> length (filter selected ds) \<le> 1 \<and>
     (\<forall>d \<in> set ds. doc_ok ui iss pend d)"

definition sys_ok :: "bool \<Rightarrow> sys \<Rightarrow> bool" where
  "sys_ok ui s \<longleftrightarrow>
     reg_ok ui (issued s) (fst ` set (uploading s)) (registry s) \<and>
     (\<forall>snap \<in> set (removing s). reg_ok ui (issued s) (fst ` set (uploading s)) snap) \<and>
     distinct (map fst (uploading s)) \<and> fst ` set (uploading s) \<subseteq> issued s"

text \<open>
  The failing kinds of a remote call whose answer is parsed, as the specification lists
  them: a network error, an answer that is not 2xx, and a 2xx answer whose body does not
  parse.
\<close>

fun call_fails :: "jobj fetch_result \<Rightarrow> bool" where
  "call_fails (NetworkError m) = True"
| "call_fails (Response st stt (Unparsable m)) = True"
| "call_fails (Response st stt b) = (\<not> res_ok st)"

text \<open>The precondition of \<^verbatim>\<open>ask\<close>: a selected, uploaded document and a question that is not blank.\<close>

definition can_ask :: "state \<Rightarrow> bool" where
  "can_ask s \<longleftrightarrow> (\<exists>d \<in> set (documents s). selected d \<and> uploaded d) \<and> trim (input s) \<noteq> []"

subsection \<open>Example values\<close>

text \<open>
  The scenario of the specification: \<^verbatim>\<open>report.pdf\<close> of 2 MB, uploaded under session
  \<^verbatim>\<open>s1\<close> and selected, and the question \<^verbatim>\<open>What is the summary?\<close> in the input buffer.
\<close>

definition report_pdf :: js_file where
  "report_pdf = \<lparr>file_name = ''report.pdf'', file_type = ''application/pdf'', file_size = 2097152\<rparr>"

definition report_doc :: document where
  "report_doc = \<lparr>doc_id = ''k3x9'', name = ''report.pdf'', doc_size = 2097152, uploaded = True,
     progress = 100, selected = True, sessionId = Some ''s1'', error = None\<rparr>"

definition asking :: state where
  "asking = initial\<lparr>documents := [report_doc], input := ''What is the summary?''\<rparr>"

definition user_question :: message where
  "user_question = \<lparr>role = User, content = ''What is the summary?'', timestamp = 1000, sources = None\<rparr>"

definition server_down :: "jobj fetch_result" where
  "server_down = NetworkError ''Failed to fetch''"

definition env_session_down :: upload_env where
  "env_session_down = \<lparr>new_id = ''k3x9'', session_res = Response 503 ''Service Unavailable'' (Unparsable ''Unexpected token''),
     upload_res = server_down\<rparr>"

text \<open>
  The system state after \<^verbatim>\<open>report.pdf\<close> has been uploaded and selected, with no handler
  pending.
\<close>

definition selected_sys :: sys where
  "selected_sys = \<lparr>registry = [report_doc], uploading = [], removing = [], issued = {''k3x9''}\<rparr>"

section \<open>Properties\<close>

subsection \<open>Helper facts\<close>

lemma trim_blank: "trim s = [] \<longleftrightarrow> (\<forall>c \<in> set s. js_whitespace c)"
proof
  assume "trim s = []"
  then have all: "\<forall>x \<in> set (dropWhile js_whitespace s). js_whitespace x"
    by (simp add: trim_def dropWhile_eq_Nil_conv)
  have "dropWhile js_whitespace s = []"
  proof (rule ccontr)
    assume ne: "dropWhile js_whitespace s \<noteq> []"
    then have "\<not> js_whitespace (hd (dropWhile js_whitespace s))" by (rule hd_dropWhile)
    with ne all show False by simp
  qed
  then show "\<forall>c \<in> set s. js_whitespace c" by (simp add: dropWhile_eq_Nil_conv)
next
  assume "\<forall>c \<in> set s. js_whitespace c"
  then show "trim s = []" by (auto simp: trim_def dest: set_dropWhileD)
qed

lemma find_selected:
  "(\<exists>d \<in> set ds. selected d \<and> uploaded d) \<Longrightarrow>
   \<exists>sel. find (\<lambda>d. selected d \<and> uploaded d) ds = Some sel"
  by (cases "find (\<lambda>d. selected d \<and> uploaded d) ds") (auto simp: find_None_iff)

lemma updateSessionInfo_keeps:
  "messages (fst (updateSessionInfo s sid info)) = messages s \<and>
   loading (fst (updateSessionInfo s sid info)) = loading s \<and>
   input (fst (updateSessionInfo s sid info)) = input s \<and>
   apiError (fst (updateSessionInfo s sid info)) = apiError s \<and>
   documents (fst (updateSessionInfo s sid info)) = documents s"
  by (simp add: updateSessionInfo_def split: fetch_result.split body.split)

lemma can_ask_asking: "can_ask asking"
  by (simp add: can_ask_def asking_def report_doc_def initial_def trim_def js_whitespace_def)

lemma asking_fields: "messages asking = []" "input asking = ''What is the summary?''"
  by (simp_all add: asking_def initial_def)

subsection \<open>Chat\<close>

text \<open>
  C6. When no document is both selected and uploaded, or when the question is empty or
  consists of white space only, \<^verbatim>\<open>sendMessage\<close> changes nothing (transcript, input
  buffer, loading flag and error banner are as before) and issues no request, in both
  versions and whatever the remote side would have answered.
\<close>

theorem ask_noop:
  "(\<forall>d \<in> set (documents s). \<not> (selected d \<and> uploaded d)) \<or>
   (\<forall>c \<in> set (input s). js_whitespace c) \<Longrightarrow>
   sendMessage s t1 t2 res info = (s, []) \<and> sendMessage_part0 s t1 t2 res = (s, [])"
proof -
  assume "(\<forall>d \<in> set (documents s). \<not> (selected d \<and> uploaded d)) \<or>
    (\<forall>c \<in> set (input s). js_whitespace c)"
  then consider "find (\<lambda>d. selected d \<and> uploaded d) (documents s) = None" | "trim (input s) = []"
    by (auto simp: find_None_iff trim_blank)
  then show ?thesis
    by cases (simp_all add: sendMessage_def sendMessage_part0_def split: option.split)
qed

theorem ask_noop_witness:
  "list_all js_whitespace (input (asking\<lparr>input := ''   ''\<rparr>)) \<and>
   sendMessage (asking\<lparr>input := ''   ''\<rparr>) 1000 2000 server_down (NetworkError []) =
     (asking\<lparr>input := ''   ''\<rparr>, []) \<and>
   sendMessage_part0 (asking\<lparr>input := ''   ''\<rparr>) 1000 2000 server_down =
     (asking\<lparr>input := ''   ''\<rparr>, [])"
proof -
  have blank: "\<forall>c \<in> set (input (asking\<lparr>input := ''   ''\<rparr>)). js_whitespace c"
    by (simp add: js_whitespace_def)
  then have "(\<forall>d \<in> set (documents (asking\<lparr>input := ''   ''\<rparr>)). \<not> (selected d \<and> uploaded d)) \<or>
    (\<forall>c \<in> set (input (asking\<lparr>input := ''   ''\<rparr>)). js_whitespace c)" ..
  from ask_noop [OF this] blank show ?thesis by (simp add: list_all_iff)
qed

text \<open>
  C4. When a selected, uploaded document exists and the question is not blank,
  \<^verbatim>\<open>sendMessage\<close> appends exactly two messages to the transcript: first the user message
  with the question text, then one assistant message. This holds for every answer of
  the remote side, successful or not, in both versions.
\<close>

theorem ask_appends_two:
  "can_ask s \<Longrightarrow>
   (\<exists>reply. messages (fst (sendMessage s t1 t2 res info)) =
      messages s @ [\<lparr>role = User, content = input s, timestamp = t1, sources = None\<rparr>, reply] \<and>
      role reply = Bot) \<and>
   (\<exists>reply. messages (fst (sendMessage_part0 s t1 t2 res)) =
      messages s @ [\<lparr>role = User, content = input s, timestamp = t1, sources = None\<rparr>, reply] \<and>
      role reply = Bot)"
proof -
  assume a: "can_ask s"
  then obtain sel where f: "find (\<lambda>d. selected d \<and> uploaded d) (documents s) = Some sel"
    using find_selected unfolding can_ask_def by blast
  from a have t: "trim (input s) \<noteq> []" by (simp add: can_ask_def)
  have A: "\<exists>reply. messages (fst (sendMessage s t1 t2 res info)) =
      messages s @ [\<lparr>role = User, content = input s, timestamp = t1, sources = None\<rparr>, reply] \<and>
      role reply = Bot"
    using f t
    by (cases "chat_try res"; cases "sessionId sel")
       (simp_all add: sendMessage_def Let_def split_beta updateSessionInfo_keeps)
  have B: "\<exists>reply. messages (fst (sendMessage_part0 s t1 t2 res)) =
      messages s @ [\<lparr>role = User, content = input s, timestamp = t1, sources = None\<rparr>, reply] \<and>
      role reply = Bot"
    using f t
    by (cases "chat_try_part0 res") (auto simp: sendMessage_part0_def Let_def)
  from A B show ?thesis by blast
qed

theorem ask_appends_two_witness:
  "can_ask asking \<and>
   (\<exists>reply. messages (fst (sendMessage asking 1000 2000 server_down (NetworkError []))) =
      [user_question, reply] \<and> role reply = Bot) \<and>
   (\<exists>reply. messages (fst (sendMessage_part0 asking 1000 2000 server_down)) =
      [user_question, reply] \<and> role reply = Bot)"
  using ask_appends_two [OF can_ask_asking, of 1000 2000 server_down "NetworkError []"]
    can_ask_asking
  by (simp add: asking_fields user_question_def)

lemma call_fails_chat_try:
  "call_fails res \<Longrightarrow> \<exists>banner. chat_try res = Inl banner \<and>
     (\<forall>m. res = NetworkError m \<longrightarrow> banner = m) \<and>
     (\<forall>st stt m. res = Response st stt (Unparsable m) \<and> res_ok st \<longrightarrow> banner = m)"
  by (cases res rule: call_fails.cases) (simp_all add: chat_try_def)

lemma call_fails_chat_try_part0:
  "call_fails res \<Longrightarrow> \<exists>banner. chat_try_part0 res = Inl banner \<and>
     (\<forall>m. res = NetworkError m \<longrightarrow> banner = m) \<and>
     (\<forall>st stt m. res = Response st stt (Unparsable m) \<and> res_ok st \<longrightarrow> banner = m)"
  by (cases res rule: call_fails.cases) (simp_all add: chat_try_part0_def)

lemma sendMessage_failed:
  "find (\<lambda>d. selected d \<and> uploaded d) (documents s) = Some sel \<Longrightarrow> trim (input s) \<noteq> [] \<Longrightarrow>
   chat_try res = Inl banner \<Longrightarrow>
   fst (sendMessage s t1 t2 res info) =
     s\<lparr>messages := messages s @
          [\<lparr>role = User, content = input s, timestamp = t1, sources = None\<rparr>,
           \<lparr>role = Bot, content = apology, timestamp = t2, sources = Some []\<rparr>],
       input := [], loading := False, apiError := banner\<rparr>"
  by (simp add: sendMessage_def Let_def)

lemma sendMessage_part0_failed:
  "find (\<lambda>d. selected d \<and> uploaded d) (documents s) = Some sel \<Longrightarrow> trim (input s) \<noteq> [] \<Longrightarrow>
   chat_try_part0 res = Inl banner \<Longrightarrow>
   fst (sendMessage_part0 s t1 t2 res) =
     s\<lparr>messages := messages s @
          [\<lparr>role = User, content = input s, timestamp = t1, sources = None\<rparr>,
           \<lparr>role = Bot, content = apology_part0, timestamp = t2, sources = None\<rparr>],
       input := [], loading := False, apiError := banner\<rparr>"
  by (simp add: sendMessage_part0_def Let_def)

lemma sendMessage_not_loading:
  "find (\<lambda>d. selected d \<and> uploaded d) (documents s) = Some sel \<Longrightarrow> trim (input s) \<noteq> [] \<Longrightarrow>
   \<not> loading (fst (sendMessage s t1 t2 res info))"
  by (cases "chat_try res"; cases "sessionId sel")
     (simp_all add: sendMessage_def Let_def split_beta updateSessionInfo_keeps)

lemma sendMessage_part0_not_loading:
  "find (\<lambda>d. selected d \<and> uploaded d) (documents s) = Some sel \<Longrightarrow> trim (input s) \<noteq> [] \<Longrightarrow>
   \<not> loading (fst (sendMessage_part0 s t1 t2 res))"
  by (cases "chat_try_part0 res") (simp_all add: sendMessage_part0_def Let_def)

text \<open>
  C5. When a selected, uploaded document exists and the question is not blank, and the
  chat call fails (network error, an answer that is not 2xx, or a 2xx answer whose body
  does not parse), the assistant message appended after the user message is the fixed
  apology text, the error banner holds the message of the underlying error (for a
  network error and for a body that does not parse, the message of that error itself),
  and the loading flag is false. The loading flag is false after every run of the
  handler that passed the precondition, whatever the remote side answered.
\<close>

theorem ask_failure:
  "can_ask s \<Longrightarrow> call_fails res \<Longrightarrow>
   (\<exists>banner. chat_try res = Inl banner \<and>
      (\<forall>m. res = NetworkError m \<longrightarrow> banner = m) \<and>
      (\<forall>st stt m. res = Response st stt (Unparsable m) \<and> res_ok st \<longrightarrow> banner = m) \<and>
      fst (sendMessage s t1 t2 res info) =
        s\<lparr>messages := messages s @
             [\<lparr>role = User, content = input s, timestamp = t1, sources = None\<rparr>,
              \<lparr>role = Bot, content = apology, timestamp = t2, sources = Some []\<rparr>],
          input := [], loading := False, apiError := banner\<rparr>) \<and>
   (\<exists>banner. chat_try_part0 res = Inl banner \<and>
      (\<forall>m. res = NetworkError m \<longrightarrow> banner = m) \<and>
      (\<forall>st stt m. res = Response st stt (Unparsable m) \<and> res_ok st \<longrightarrow> banner = m) \<and>
      fst (sendMessage_part0 s t1 t2 res) =
        s\<lparr>messages := messages s @
             [\<lparr>role = User, content = input s, timestamp = t1, sources = None\<rparr>,
              \<lparr>role = Bot, content = apology_part0, timestamp = t2, sources = None\<rparr>],
          input := [], loading := False, apiError := banner\<rparr>) \<and>
   (\<forall>res' info'. \<not> loading (fst (sendMessage s t1 t2 res' info')) \<and>
      \<not> loading (fst (sendMessage_part0 s t1 t2 res')))"
proof -
  assume a: "can_ask s" and c: "call_fails res"
  from a obtain sel where f: "find (\<lambda>d. selected d \<and> uploaded d) (documents s) = Some sel"
    using find_selected unfolding can_ask_def by blast
  from a have t: "trim (input s) \<noteq> []" by (simp add: can_ask_def)
  from call_fails_chat_try [OF c] obtain b1 where b1: "chat_try res = Inl b1"
    "\<forall>m. res = NetworkError m \<longrightarrow> b1 = m"
    "\<forall>st stt m. res = Response st stt (Unparsable m) \<and> res_ok st \<longrightarrow> b1 = m" by blast
  from call_fails_chat_try_part0 [OF c] obtain b2 where b2: "chat_try_part0 res = Inl b2"
    "\<forall>m. res = NetworkError m \<longrightarrow> b2 = m"
    "\<forall>st stt m. res = Response st stt (Unparsable m) \<and> res_ok st \<longrightarrow> b2 = m" by blast
  show ?thesis
  proof (intro conjI allI)
    show "\<exists>banner. chat_try res = Inl banner \<and>
      (\<forall>m. res = NetworkError m \<longrightarrow> banner = m) \<and>
      (\<forall>st stt m. res = Response st stt (Unparsable m) \<and> res_ok st \<longrightarrow> banner = m) \<and>
      fst (sendMessage s t1 t2 res info) =
        s\<lparr>messages := messages s @
             [\<lparr>role = User, content = input s, timestamp = t1, sources = None\<rparr>,
              \<lparr>role = Bot, content = apology, timestamp = t2, sources = Some []\<rparr>],
          input := [], loading := False, apiError := banner\<rparr>"
      using b1 sendMessage_failed [OF f t b1(1)] by blast
    show "\<exists>banner. chat_try_part0 res = Inl banner \<and>
      (\<forall>m. res = NetworkError m \<longrightarrow> banner = m) \<and>
      (\<forall>st stt m. res = Response st stt (Unparsable m) \<and> res_ok st \<longrightarrow> banner = m) \<and>
      fst (sendMessage_part0 s t1 t2 res) =
        s\<lparr>messages := messages s @
             [\<lparr>role = User, content = input s, timestamp = t1, sources = None\<rparr>,
              \<lparr>role = Bot, content = apology_part0, timestamp = t2, sources = None\<rparr>],
          input := [], loading := False, apiError := banner\<rparr>"
      using b2 sendMessage_part0_failed [OF f t b2(1)] by blast
    show "\<not> loading (fst (sendMessage s t1 t2 res' info'))" for res' info'
      by (rule sendMessage_not_loading [OF f t])
    show "\<not> loading (fst (sendMessage_part0 s t1 t2 res'))" for res'
      by (rule sendMessage_part0_not_loading [OF f t])
  qed
qed

theorem ask_failure_witness:
  "can_ask asking \<and> call_fails server_down \<and>
   fst (sendMessage asking 1000 2000 server_down (NetworkError [])) =
     asking\<lparr>messages := [user_question,
         \<lparr>role = Bot, content = apology, timestamp = 2000, sources = Some []\<rparr>],
       input := [], loading := False, apiError := ''Failed to fetch''\<rparr> \<and>
   fst (sendMessage_part0 asking 1000 2000 server_down) =
     asking\<lparr>messages := [user_question,
         \<lparr>role = Bot, content = apology_part0, timestamp = 2000, sources = None\<rparr>],
       input := [], loading := False, apiError := ''Failed to fetch''\<rparr>"
proof -
  have c: "call_fails server_down" by (simp add: server_down_def)
  from ask_failure [OF can_ask_asking c, of 1000 2000 "NetworkError []"]
  show ?thesis using c can_ask_asking
    by (auto simp: server_down_def asking_fields user_question_def)
qed

subsection \<open>Upload\<close>

lemma call_fails_create_session_try:
  "call_fails res \<Longrightarrow> \<exists>m. create_session_try res = Inl m"
  by (cases res rule: call_fails.cases) (simp_all add: create_session_try_def split: body.split)

lemma call_fails_create_session_try_part0:
  "call_fails res \<Longrightarrow> \<exists>m. create_session_try_part0 res = Inl m"
  by (cases res rule: call_fails.cases) (simp_all add: create_session_try_part0_def split: body.split)

lemma upload_one_session_failed:
  "file_type f = ''application/pdf'' \<Longrightarrow> \<not> file_size f > max_size \<Longrightarrow>
   create_session_try (session_res e) = Inl m \<Longrightarrow>
   upload_one s f e =
     (s\<lparr>documents := set_failed (new_id e) m (set_progress (new_id e) 25 (documents s)) @
                      [(new_document (new_id e) f)\<lparr>error := Some m\<rparr>],
        apiError := ''Failed to upload '' @ file_name f @ '': '' @ m\<rparr>, [PostCreateSession])"
  by (simp add: upload_one_def Let_def upload_failed_def set_failed_def set_progress_def
      new_document_def)

lemma upload_one_part0_session_failed:
  "file_type f = ''application/pdf'' \<Longrightarrow> \<not> file_size f > max_size \<Longrightarrow>
   create_session_try_part0 (session_res e) = Inl m \<Longrightarrow>
   upload_one_part0 s f e =
     (s\<lparr>documents := set_failed_part0 (new_id e) m (set_progress (new_id e) 30 (documents s)) @
                      [(new_document (new_id e) f)\<lparr>error := Some (''Failed: '' @ m)\<rparr>]\<rparr>,
      [PostCreateSession])"
  by (simp add: upload_one_part0_def Let_def set_failed_part0_def set_progress_def
      new_document_def)

lemma length_updates:
  "length (set_failed i m ds) = length ds" "length (set_failed_part0 i m ds) = length ds"
  "length (set_progress i p ds) = length ds"
  by (simp_all add: set_failed_def set_failed_part0_def set_progress_def)

lemma report_pdf_valid: "file_type report_pdf = ''application/pdf''" "\<not> file_size report_pdf > max_size"
  by (simp_all add: report_pdf_def max_size_def)

lemma env_session_down_fails: "call_fails (session_res env_session_down)"
  by (simp add: env_session_down_def)

text \<open>
  C7. When the create-session call of an upload fails (network error, an answer that is
  not 2xx, or a 2xx answer whose body does not parse), the handler issues the
  create-session request and nothing else (the upload endpoint is never called), and
  the document it created, the last entry of the registry, ends with progress 0, not
  uploaded, and with an error message. This holds in both versions.
\<close>

theorem session_failure_stops_upload:
  "file_type f = ''application/pdf'' \<Longrightarrow> \<not> file_size f > max_size \<Longrightarrow> call_fails (session_res e) \<Longrightarrow>
   (\<exists>ds d m. documents (fst (upload_one s f e)) = ds @ [d] \<and> length ds = length (documents s) \<and>
      doc_id d = new_id e \<and> name d = file_name f \<and> progress d = 0 \<and> \<not> uploaded d \<and>
      error d = Some m) \<and>
   snd (upload_one s f e) = [PostCreateSession] \<and>
   (\<exists>ds d m. documents (fst (upload_one_part0 s f e)) = ds @ [d] \<and> length ds = length (documents s) \<and>
      doc_id d = new_id e \<and> name d = file_name f \<and> progress d = 0 \<and> \<not> uploaded d \<and>
      error d = Some m) \<and>
   snd (upload_one_part0 s f e) = [PostCreateSession]"
proof -
  assume ty: "file_type f = ''application/pdf''" and sz: "\<not> file_size f > max_size"
    and fails: "call_fails (session_res e)"
  from call_fails_create_session_try [OF fails] obtain m where
    m: "create_session_try (session_res e) = Inl m" ..
  from call_fails_create_session_try_part0 [OF fails] obtain m0 where
    m0: "create_session_try_part0 (session_res e) = Inl m0" ..
  note A = upload_one_session_failed [OF ty sz m, of s]
  note B = upload_one_part0_session_failed [OF ty sz m0, of s]
  have "\<exists>ds d m. documents (fst (upload_one s f e)) = ds @ [d] \<and> length ds = length (documents s) \<and>
      doc_id d = new_id e \<and> name d = file_name f \<and> progress d = 0 \<and> \<not> uploaded d \<and>
      error d = Some m"
    by (rule exI [of _ "set_failed (new_id e) m (set_progress (new_id e) 25 (documents s))"],
        rule exI [of _ "(new_document (new_id e) f)\<lparr>error := Some m\<rparr>"], rule exI [of _ m])
       (simp add: A length_updates new_document_def)
  moreover have "\<exists>ds d m. documents (fst (upload_one_part0 s f e)) = ds @ [d] \<and>
      length ds = length (documents s) \<and>
      doc_id d = new_id e \<and> name d = file_name f \<and> progress d = 0 \<and> \<not> uploaded d \<and>
      error d = Some m"
    by (rule exI [of _ "set_failed_part0 (new_id e) m0 (set_progress (new_id e) 30 (documents s))"],
        rule exI [of _ "(new_document (new_id e) f)\<lparr>error := Some (''Failed: '' @ m0)\<rparr>"],
        rule exI [of _ "''Failed: '' @ m0"])
       (simp add: B length_updates new_document_def)
  ultimately show ?thesis by (simp add: A B)
qed

theorem session_failure_stops_upload_witness:
  "file_type report_pdf = ''application/pdf'' \<and> \<not> file_size report_pdf > max_size \<and>
   call_fails (session_res env_session_down) \<and>
   snd (upload_one initial report_pdf env_session_down) = [PostCreateSession] \<and>
   snd (upload_one_part0 initial report_pdf env_session_down) = [PostCreateSession] \<and>
   (\<exists>d m. documents (fst (upload_one initial report_pdf env_session_down)) = [d] \<and>
      progress d = 0 \<and> \<not> uploaded d \<and> error d = Some m) \<and>
   (\<exists>d m. documents (fst (upload_one_part0 initial report_pdf env_session_down)) = [d] \<and>
      progress d = 0 \<and> \<not> uploaded d \<and> error d = Some m)"
proof -
  have d: "documents initial = []" by (simp add: initial_def)
  from session_failure_stops_upload [OF report_pdf_valid env_session_down_fails, of initial]
  show ?thesis using report_pdf_valid env_session_down_fails
    by (simp add: d) blast
qed

text \<open>
  C8. For a file whose type is not \<^verbatim>\<open>application/pdf\<close> or whose size exceeds 10 MiB,
  one iteration of the upload loop returns the state unchanged except for the error
  banner, which holds a validation message that is not empty, and issues no request.
  The handler called on that file alone leaves the registry as it was, sets the banner
  and issues no request. This holds in both versions.
\<close>

theorem invalid_file_rejected:
  "file_type f \<noteq> ''application/pdf'' \<or> file_size f > 10 * 1024 * 1024 \<Longrightarrow>
   (\<exists>msg. msg \<noteq> [] \<and> upload_one s f e = (s\<lparr>apiError := msg\<rparr>, [])) \<and>
   (\<exists>msg. msg \<noteq> [] \<and> upload_one_part0 s f e = (s\<lparr>apiError := msg\<rparr>, [])) \<and>
   documents (fst (handleFileUpload s (Some [(f, e)]))) = documents s \<and>
   apiError (fst (handleFileUpload s (Some [(f, e)]))) \<noteq> [] \<and>
   snd (handleFileUpload s (Some [(f, e)])) = [] \<and>
   documents (fst (handleFileUpload_part0 s (Some [(f, e)]))) = documents s \<and>
   apiError (fst (handleFileUpload_part0 s (Some [(f, e)]))) \<noteq> [] \<and>
   snd (handleFileUpload_part0 s (Some [(f, e)])) = []"
proof -
  assume "file_type f \<noteq> ''application/pdf'' \<or> file_size f > 10 * 1024 * 1024"
  then consider "file_type f \<noteq> ''application/pdf''"
    | "file_type f = ''application/pdf''" "file_size f > max_size"
    by (auto simp: max_size_def)
  then have A: "\<exists>msg. msg \<noteq> [] \<and> upload_one s f e = (s\<lparr>apiError := msg\<rparr>, [])"
    and B: "\<exists>msg. msg \<noteq> [] \<and> upload_one_part0 s f e = (s\<lparr>apiError := msg\<rparr>, [])"
    for s
    by (cases; simp add: upload_one_def upload_one_part0_def; blast)+
  from A [of "s\<lparr>apiError := []\<rparr>"] obtain a where
    a: "a \<noteq> []" "upload_one (s\<lparr>apiError := []\<rparr>) f e = (s\<lparr>apiError := a\<rparr>, [])" by auto
  from B [of "s\<lparr>apiError := []\<rparr>"] obtain b where
    b: "b \<noteq> []" "upload_one_part0 (s\<lparr>apiError := []\<rparr>) f e = (s\<lparr>apiError := b\<rparr>, [])" by auto
  show ?thesis
    using A [of s] B [of s] a b by (simp add: handleFileUpload_def handleFileUpload_part0_def)
qed

theorem invalid_file_rejected_witness:
  "file_size (report_pdf\<lparr>file_size := 12582912\<rparr>) > 10 * 1024 * 1024 \<and>
   upload_one initial (report_pdf\<lparr>file_size := 12582912\<rparr>) env_session_down =
     (initial\<lparr>apiError := ''report.pdf is too large. Maximum size is 10MB.''\<rparr>, []) \<and>
   upload_one_part0 initial (report_pdf\<lparr>file_size := 12582912\<rparr>) env_session_down =
     (initial\<lparr>apiError := ''report.pdf too large (max 10MB)''\<rparr>, []) \<and>
   documents (fst (handleFileUpload initial (Some [(report_pdf\<lparr>file_size := 12582912\<rparr>, env_session_down)]))) = [] \<and>
   snd (handleFileUpload initial (Some [(report_pdf\<lparr>file_size := 12582912\<rparr>, env_session_down)])) = []"
proof -
  have big: "file_size (report_pdf\<lparr>file_size := 12582912\<rparr>) > 10 * 1024 * 1024" by simp
  then have h: "file_type (report_pdf\<lparr>file_size := 12582912\<rparr>) \<noteq> ''application/pdf'' \<or>
    file_size (report_pdf\<lparr>file_size := 12582912\<rparr>) > 10 * 1024 * 1024" ..
  have n: "file_name (report_pdf\<lparr>file_size := 12582912\<rparr>) = ''report.pdf''"
    "file_type (report_pdf\<lparr>file_size := 12582912\<rparr>) = ''application/pdf''"
    by (simp_all add: report_pdf_def)
  have d: "documents initial = []" by (simp add: initial_def)
  from invalid_file_rejected [OF h, of initial env_session_down]
  show ?thesis using big
    by (simp add: upload_one_def upload_one_part0_def n d max_size_def)
qed

subsection \<open>Deletion\<close>

lemma clear_info_if_selected_keeps:
  "documents (clear_info_if_selected orig i s) = documents s"
  "apiError (clear_info_if_selected orig i s) = apiError s"
  by (simp_all add: clear_info_if_selected_def split: option.split)

lemma without_absent: "\<forall>d \<in> set (without i ds). doc_id d \<noteq> i"
  by (simp add: without_def)

text \<open>
  \<^verbatim>\<open>ChatApp.tsx\<close> puts the snapshot back in its \<^verbatim>\<open>catch\<close>, so every failure of the teardown
  call restores the registry and sets the banner, and a successful call leaves the
  document removed. \<^verbatim>\<open>part_000\<close> does the same for an answer that is not 2xx.
\<close>

lemma delete_try_failure:
  "(\<exists>m. res = NetworkError m) \<or> (\<exists>st stt b. res = Response st stt b \<and> \<not> res_ok st) \<Longrightarrow>
   \<exists>m. delete_try res = Some m"
  by (auto simp: delete_try_def split: body.split)

lemma removeDocument_failure_restores:
  "truthy sid \<Longrightarrow> delete_try res = Some m \<Longrightarrow>
   fst (removeDocument s i sid res) = s\<lparr>apiError := ''Failed to remove document: '' @ m\<rparr>"
  by (auto simp: removeDocument_def truthy_def Let_def split: option.splits)

lemma removeDocument_success_final:
  "truthy sid \<Longrightarrow> res_ok st \<Longrightarrow>
   documents (fst (removeDocument s i sid (Response st stt b))) = without i (documents s) \<and>
   apiError (fst (removeDocument s i sid (Response st stt b))) = apiError s"
  by (auto simp: removeDocument_def truthy_def Let_def delete_try_def clear_info_if_selected_keeps
      split: option.splits)

lemma removeDocument_part0_http_failure_restores:
  "truthy sid \<Longrightarrow> \<not> res_ok st \<Longrightarrow>
   fst (removeDocument_part0 s i sid (Response st stt b)) =
     s\<lparr>apiError := ''Remove failed: Delete failed ('' @ string_of_nat st @ '')''\<rparr>"
  by (auto simp: removeDocument_part0_def truthy_def Let_def split: option.splits)

lemma removeDocument_part0_network_error:
  "truthy sid \<Longrightarrow>
   fst (removeDocument_part0 s i sid (NetworkError m)) =
     s\<lparr>documents := without i (documents s), apiError := ''Remove failed: '' @ m\<rparr>"
  by (auto simp: removeDocument_part0_def truthy_def Let_def split: option.splits)

text \<open>
  C1, at the input where the code departs from it. In \<^verbatim>\<open>part_000\<close> the snapshot is put
  back only in the branch for an answer that is not 2xx. When the teardown call is
  issued and \<^verbatim>\<open>fetch\<close> itself rejects (a network error), the banner is set but the
  registry stays without the document: with \<^verbatim>\<open>report.pdf\<close> as the only document, the
  registry ends empty instead of equal to the snapshot.
\<close>

theorem remove_part0_network_error_not_restored:
  "documents asking = [report_doc] \<and>
   fst (removeDocument_part0 asking ''k3x9'' (sessionId report_doc) server_down) =
     asking\<lparr>documents := [], apiError := ''Remove failed: Failed to fetch''\<rparr> \<and>
   snd (removeDocument_part0 asking ''k3x9'' (sessionId report_doc) server_down) =
     [DeleteClearSession ''s1'']"
  by (simp add: removeDocument_part0_def asking_def report_doc_def server_down_def initial_def
      without_def)

text \<open>
  C10. When the session identifier passed to \<^verbatim>\<open>removeDocument\<close> is absent or empty, the
  handler issues no request, the registry afterwards is the registry without the
  documents of that identifier, and the error banner is as it was. The result does not
  depend on any answer of the remote side, so there is no failure or rollback path.
  This holds in both versions.
\<close>

theorem remove_without_session:
  "\<not> truthy sid \<Longrightarrow>
   documents (fst (removeDocument s i sid res)) = without i (documents s) \<and>
   apiError (fst (removeDocument s i sid res)) = apiError s \<and>
   snd (removeDocument s i sid res) = [] \<and>
   documents (fst (removeDocument_part0 s i sid res)) = without i (documents s) \<and>
   apiError (fst (removeDocument_part0 s i sid res)) = apiError s \<and>
   snd (removeDocument_part0 s i sid res) = [] \<and>
   (\<forall>d \<in> set (without i (documents s)). doc_id d \<noteq> i)"
  by (cases sid)
     (simp_all add: removeDocument_def removeDocument_part0_def truthy_def Let_def
       clear_info_if_selected_keeps without_def)

theorem remove_without_session_witness:
  "\<not> truthy (sessionId (report_doc\<lparr>sessionId := None\<rparr>)) \<and>
   documents (fst (removeDocument (asking\<lparr>documents := [report_doc\<lparr>sessionId := None\<rparr>]\<rparr>) ''k3x9'' None server_down)) = [] \<and>
   apiError (fst (removeDocument (asking\<lparr>documents := [report_doc\<lparr>sessionId := None\<rparr>]\<rparr>) ''k3x9'' None server_down)) = [] \<and>
   snd (removeDocument (asking\<lparr>documents := [report_doc\<lparr>sessionId := None\<rparr>]\<rparr>) ''k3x9'' None server_down) = [] \<and>
   documents (fst (removeDocument_part0 (asking\<lparr>documents := [report_doc\<lparr>sessionId := None\<rparr>]\<rparr>) ''k3x9'' None server_down)) = [] \<and>
   snd (removeDocument_part0 (asking\<lparr>documents := [report_doc\<lparr>sessionId := None\<rparr>]\<rparr>) ''k3x9'' None server_down) = []"
proof -
  have n: "\<not> truthy None" by (simp add: truthy_def)
  from remove_without_session [OF n, of "asking\<lparr>documents := [report_doc\<lparr>sessionId := None\<rparr>]\<rparr>"
      "''k3x9''" server_down]
  show ?thesis using n
    by (simp add: without_def report_doc_def asking_def initial_def)
qed

subsection \<open>Health check\<close>

text \<open>
  After the check the status is never unknown. \<^verbatim>\<open>part_000\<close> reports healthy exactly for
  a 2xx answer; \<^verbatim>\<open>ChatApp.tsx\<close> reports healthy exactly for a 2xx answer whose body
  parses.
\<close>

lemma checkHealth_known:
  "backendStatus (fst (checkHealth s res)) \<noteq> Unknown \<and>
   backendStatus (fst (checkHealth_part0 s res)) \<noteq> Unknown"
  by (simp add: checkHealth_def checkHealth_part0_def split: fetch_result.split body.split)

lemma checkHealth_part0_status:
  "backendStatus (fst (checkHealth_part0 s res)) =
     (case res of NetworkError m \<Rightarrow> Unhealthy
      | Response st stt b \<Rightarrow> if res_ok st then Healthy else Unhealthy)"
  by (simp add: checkHealth_part0_def split: fetch_result.split)

lemma checkHealth_status:
  "backendStatus (fst (checkHealth s res)) =
     (case res of NetworkError m \<Rightarrow> Unhealthy
      | Response st stt b \<Rightarrow>
          if res_ok st \<and> (\<forall>m. b \<noteq> Unparsable m) then Healthy else Unhealthy)"
  by (auto simp: checkHealth_def split: fetch_result.split body.split)

text \<open>
  C9, at the input where the code departs from it. The status starts as unknown. In
  \<^verbatim>\<open>ChatApp.tsx\<close> a 200 answer of the liveness endpoint whose body is not JSON makes the
  status unhealthy, because the body is parsed (for a log line) before the status is
  set; \<^verbatim>\<open>part_000\<close> makes it healthy.
\<close>

theorem health_ok_without_json_unhealthy:
  "backendStatus initial = Unknown \<and> res_ok 200 \<and>
   checkHealth initial (Response 200 ''OK'' (Unparsable ''Unexpected token O in JSON at position 0'')) =
     (initial\<lparr>backendStatus := Unhealthy\<rparr>, [GetHealth]) \<and>
   checkHealth_part0 initial (Response 200 ''OK'' (Unparsable ''Unexpected token O in JSON at position 0'')) =
     (initial\<lparr>backendStatus := Healthy\<rparr>, [GetHealth])"
  by (simp add: checkHealth_def checkHealth_part0_def res_ok_def initial_def)

subsection \<open>Reachable registries\<close>

text \<open>
  Every updater of the handlers replaces the entries of one identifier and leaves
  identifiers and selection flags alone; the selection update keeps the identifiers.
\<close>

lemma updates_as_update_doc:
  "set_progress i p = update_doc i (\<lambda>d. d\<lparr>progress := p\<rparr>)"
  "set_session i p sid = update_doc i (\<lambda>d. d\<lparr>progress := p, sessionId := sid\<rparr>)"
  "set_complete i = update_doc i (\<lambda>d. d\<lparr>progress := 100, uploaded := True\<rparr>)"
  "set_failed i m = update_doc i (\<lambda>d. d\<lparr>error := Some m, progress := 0, uploaded := False\<rparr>)"
  "set_failed_part0 i m = update_doc i (\<lambda>d. d\<lparr>error := Some (''Failed: '' @ m), progress := 0\<rparr>)"
  by (rule ext, simp add: update_doc_def set_progress_def set_session_def set_complete_def
      set_failed_def set_failed_part0_def)+

lemma update_doc_ids:
  "(\<And>d. doc_id (g d) = doc_id d) \<Longrightarrow> map doc_id (update_doc i g ds) = map doc_id ds"
  by (induction ds) (simp_all add: update_doc_def)

lemma update_doc_selected:
  "(\<And>d. selected (g d) = selected d) \<Longrightarrow>
   length (filter selected (update_doc i g ds)) = length (filter selected ds)"
  by (induction ds) (simp_all add: update_doc_def)

lemma update_doc_all:
  "\<forall>d \<in> set ds. P d \<Longrightarrow> (\<And>d. doc_id d = i \<Longrightarrow> P d \<Longrightarrow> Q (g d)) \<Longrightarrow>
   (\<And>d. doc_id d \<noteq> i \<Longrightarrow> P d \<Longrightarrow> Q d) \<Longrightarrow> \<forall>d \<in> set (update_doc i g ds). Q d"
  by (induction ds) (simp_all add: update_doc_def)

lemma update_doc_absent: "\<forall>d \<in> set ds. doc_id d \<noteq> i \<Longrightarrow> update_doc i g ds = ds"
  by (induction ds) (simp_all add: update_doc_def)

lemma reg_ok_update_doc:
  assumes ok: "reg_ok ui iss pend ds"
    and id: "\<And>d. doc_id (g d) = doc_id d" and sel: "\<And>d. selected (g d) = selected d"
    and hit: "\<And>d. doc_id d = i \<Longrightarrow> doc_ok ui iss pend d \<Longrightarrow> doc_ok ui iss pend' (g d)"
    and miss: "\<And>d. doc_id d \<noteq> i \<Longrightarrow> doc_ok ui iss pend d \<Longrightarrow> doc_ok ui iss pend' d"
  shows "reg_ok ui iss pend' (update_doc i g ds)"
proof -
  from ok have all: "\<forall>d \<in> set ds. doc_ok ui iss pend d" by (simp add: reg_ok_def)
  have "\<forall>d \<in> set (update_doc i g ds). doc_ok ui iss pend' d"
    by (rule update_doc_all [where P = "doc_ok ui iss pend" and Q = "doc_ok ui iss pend'", OF all hit miss])
  with ok show ?thesis
    by (simp add: reg_ok_def update_doc_ids [of g, OF id] update_doc_selected [of g, OF sel])
qed

lemma reg_ok_set_progress: "reg_ok ui iss pend ds \<Longrightarrow> reg_ok ui iss pend (set_progress i p ds)"
  unfolding updates_as_update_doc
  by (erule reg_ok_update_doc) (auto simp: doc_ok_def)

lemma reg_ok_set_session: "reg_ok ui iss pend ds \<Longrightarrow> reg_ok ui iss pend (set_session i p sid ds)"
  unfolding updates_as_update_doc
  by (erule reg_ok_update_doc) (auto simp: doc_ok_def)

lemma reg_ok_set_complete:
  "reg_ok ui iss pend ds \<Longrightarrow> i \<in> pend \<Longrightarrow> reg_ok ui iss (pend - {i}) (set_complete i ds)"
  unfolding updates_as_update_doc
  by (erule reg_ok_update_doc) (auto simp: doc_ok_def)

lemma reg_ok_set_failed:
  "reg_ok ui iss pend ds \<Longrightarrow> i \<in> pend \<Longrightarrow> reg_ok ui iss (pend - {i}) (set_failed i m ds)"
  unfolding updates_as_update_doc
  by (erule reg_ok_update_doc) (auto simp: doc_ok_def)

lemma reg_ok_set_failed_part0:
  "reg_ok ui iss pend ds \<Longrightarrow> i \<in> pend \<Longrightarrow> reg_ok ui iss (pend - {i}) (set_failed_part0 i m ds)"
  unfolding updates_as_update_doc
  by (erule reg_ok_update_doc) (auto simp: doc_ok_def)

lemma reg_ok_failed_docs:
  "reg_ok ui iss pend ds \<Longrightarrow> i \<in> pend \<Longrightarrow> reg_ok ui iss (pend - {i}) (failed_docs v i m ds)"
  by (cases v) (simp_all add: failed_docs_def reg_ok_set_failed reg_ok_set_failed_part0)

lemma set_failed_after_complete: "set_failed i m (set_complete i ds) = set_failed i m ds"
  by (induction ds) (simp_all add: set_failed_def set_complete_def)


lemma toggled_absent: "\<forall>d \<in> set ds. doc_id d \<noteq> i \<Longrightarrow> filter selected (toggled i ds) = []"
  by (induction ds) (simp_all add: toggled_def)

lemma toggled_ids: "map doc_id (toggled i ds) = map doc_id ds"
  by (induction ds) (simp_all add: toggled_def)

lemma toggled_at_most_one:
  "distinct (map doc_id ds) \<Longrightarrow> length (filter selected (toggled i ds)) \<le> 1"
proof (induction ds)
  case Nil
  then show ?case by (simp add: toggled_def)
next
  case (Cons d ds)
  show ?case
  proof (cases "doc_id d = i")
    case True
    with Cons.prems have "\<forall>x \<in> set ds. doc_id x \<noteq> i" by (auto simp: image_iff)
    then have "filter selected (toggled i ds) = []" by (rule toggled_absent)
    then show ?thesis by (simp add: toggled_def)
  next
    case False
    with Cons show ?thesis by (simp add: toggled_def)
  qed
qed

lemma reg_ok_mono:
  "reg_ok ui iss pend ds \<Longrightarrow> iss \<subseteq> iss' \<Longrightarrow> pend' \<subseteq> pend \<Longrightarrow> reg_ok ui iss' pend' ds"
  unfolding reg_ok_def doc_ok_def by blast

lemma reg_ok_fresh:
  "reg_ok ui iss pend ds \<Longrightarrow> i \<notin> iss \<Longrightarrow> reg_ok ui (insert i iss) (insert i pend) ds"
  unfolding reg_ok_def doc_ok_def by blast

lemma reg_ok_add:
  assumes ok: "reg_ok ui iss pend ds" and fresh: "i \<notin> iss"
  shows "reg_ok ui (insert i iss) (insert i pend) (set_progress i p (ds @ [new_document i f]))"
proof -
  from ok fresh have absent: "\<forall>d \<in> set ds. doc_id d \<noteq> i" unfolding reg_ok_def doc_ok_def by blast
  have eq: "set_progress i p (ds @ [new_document i f]) = ds @ [(new_document i f)\<lparr>progress := p\<rparr>]"
    using update_doc_absent [OF absent]
    by (simp add: updates_as_update_doc) (simp add: update_doc_def new_document_def)
  have new: "doc_ok ui (insert i iss) (insert i pend) ((new_document i f)\<lparr>progress := p\<rparr>)"
    by (simp add: doc_ok_def new_document_def)
  have id: "doc_id ((new_document i f)\<lparr>progress := p\<rparr>) = i"
    "\<not> selected ((new_document i f)\<lparr>progress := p\<rparr>)"
    by (simp_all add: new_document_def)
  from reg_ok_fresh [OF ok fresh] absent new id show ?thesis
    unfolding eq reg_ok_def by (auto simp: image_iff)
qed


lemma length_filter_filter: "length (filter P (filter Q xs)) \<le> length (filter P xs)"
  by (induction xs) auto

lemma reg_ok_without: "reg_ok ui iss pend ds \<Longrightarrow> reg_ok ui iss pend (without i ds)"
proof -
  assume ok: "reg_ok ui iss pend ds"
  have "length (filter selected (without i ds)) \<le> length (filter selected ds)"
    unfolding without_def by (rule length_filter_filter)
  moreover from ok have "distinct (map doc_id (without i ds))"
    by (simp add: reg_ok_def without_def distinct_map_filter)
  moreover from ok have "\<forall>d \<in> set (without i ds). doc_ok ui iss pend d"
    by (simp add: reg_ok_def without_def)
  ultimately show ?thesis using ok by (simp add: reg_ok_def)
qed

lemma toggled_selected_id: "d \<in> set (toggled i ds) \<Longrightarrow> selected d \<Longrightarrow> doc_id d = i"
  by (auto simp: toggled_def split: if_splits)

lemma same_id_same_doc:
  "distinct (map doc_id ds) \<Longrightarrow> a \<in> set ds \<Longrightarrow> b \<in> set ds \<Longrightarrow> doc_id a = doc_id b \<Longrightarrow> a = b"
  by (simp add: distinct_map inj_on_def)

lemma reg_ok_toggled:
  assumes ok: "reg_ok ui iss pend ds"
    and gate: "ui \<longrightarrow> (\<exists>d \<in> set ds. doc_id d = i \<and> selection_enabled d)"
  shows "reg_ok ui iss pend (toggled i ds)"
proof -
  from ok have dist: "distinct (map doc_id ds)" and all: "\<forall>d \<in> set ds. doc_ok ui iss pend d"
    by (simp_all add: reg_ok_def)
  have "doc_ok ui iss pend d" if mem: "d \<in> set (toggled i ds)" for d
  proof -
    from mem obtain d0 where d0: "d0 \<in> set ds"
      and d: "d = d0\<lparr>selected := (if doc_id d0 = i then \<not> selected d0 else False)\<rparr>"
      by (auto simp: toggled_def)
    from all d0 have ok0: "doc_ok ui iss pend d0" by simp
    have "uploaded d0 \<and> error d0 = None" if "ui" "selected d"
    proof -
      from mem that(2) have "doc_id d = i" by (rule toggled_selected_id)
      with d have i0: "doc_id d0 = i" by simp
      from gate that(1) obtain e where e: "e \<in> set ds" "doc_id e = i" "selection_enabled e"
        by blast
      from same_id_same_doc [OF dist d0 e(1)] i0 e(2) have "d0 = e" by simp
      with e(3) have "uploaded d0" by (simp add: selection_enabled_def)
      with ok0 show ?thesis by (auto simp: doc_ok_def)
    qed
    with ok0 show ?thesis by (simp add: doc_ok_def d)
  qed
  with toggled_at_most_one [OF dist, of i] dist show ?thesis
    by (simp add: reg_ok_def toggled_ids)
qed

lemma pending_remove1:
  "distinct (map fst ups) \<Longrightarrow> (i, ph) \<in> set ups \<Longrightarrow>
   fst ` set (remove1 (i, ph) ups) = fst ` set ups - {i}"
proof (induction ups)
  case Nil
  then show ?case by simp
next
  case (Cons u ups)
  show ?case
  proof (cases "u = (i, ph)")
    case True
    with Cons.prems show ?thesis by (auto simp: image_iff)
  next
    case False
    with Cons.prems have mem: "(i, ph) \<in> set ups" and d: "distinct (map fst ups)"
      and nu: "fst u \<notin> fst ` set ups" by auto
    from mem nu have "fst u \<noteq> i" by (auto simp: image_iff)
    with Cons.IH [OF d mem] False show ?thesis by auto
  qed
qed

lemma distinct_map_remove1: "distinct (map f xs) \<Longrightarrow> distinct (map f (remove1 x xs))"
proof (induction xs)
  case Nil
  then show ?case by simp
next
  case (Cons y ys)
  then show ?case using set_remove1_subset [of x ys] by auto
qed


lemma pending_member: "(i, ph) \<in> set ups \<Longrightarrow> i \<in> fst ` set ups"
  by (rule image_eqI [of _ _ "(i, ph)"]) simp_all

lemma sys_ok_mount: "sys_ok ui \<lparr>registry = [], uploading = [], removing = [], issued = {}\<rparr>"
  by (simp add: sys_ok_def reg_ok_def)

lemma sys_ok_upload_start:
  assumes ok: "sys_ok ui s" and fresh: "i \<notin> issued s"
  shows "sys_ok ui (s\<lparr>registry := set_progress i p (registry s @ [new_document i f]),
                      uploading := (i, AwaitSession) # uploading s,
                      issued := insert i (issued s)\<rparr>)"
proof -
  from ok fresh have "i \<notin> fst ` set (uploading s)" unfolding sys_ok_def by blast
  with ok show ?thesis
    unfolding sys_ok_def
    by (simp add: reg_ok_add [OF _ fresh] reg_ok_fresh [OF _ fresh]) blast
qed

lemma sys_ok_session_created:
  assumes ok: "sys_ok ui s" and mem: "(i, AwaitSession) \<in> set (uploading s)"
  shows "sys_ok ui (s\<lparr>registry := set_session i p sid (registry s),
                      uploading := (i, AwaitUpload) # remove1 (i, AwaitSession) (uploading s)\<rparr>)"
proof -
  from ok have d: "distinct (map fst (uploading s))" by (simp add: sys_ok_def)
  note r = pending_remove1 [OF d mem]
  note i = pending_member [OF mem]
  from ok show ?thesis
    unfolding sys_ok_def
    by (simp add: r insert_absorb [OF i] distinct_map_remove1 [OF d] reg_ok_set_session)
qed

lemma sys_ok_finished:
  assumes ok: "sys_ok ui s" and mem: "(i, ph) \<in> set (uploading s)"
    and step: "\<And>pend. reg_ok ui (issued s) pend (registry s) \<Longrightarrow> i \<in> pend \<Longrightarrow>
       reg_ok ui (issued s) (pend - {i}) ds"
  shows "sys_ok ui (s\<lparr>registry := ds, uploading := remove1 (i, ph) (uploading s)\<rparr>)"
proof -
  from ok have d: "distinct (map fst (uploading s))" by (simp add: sys_ok_def)
  note r = pending_remove1 [OF d mem]
  note i = pending_member [OF mem]
  from ok have reg: "reg_ok ui (issued s) (fst ` set (uploading s)) (registry s)"
    by (simp add: sys_ok_def)
  have snaps: "\<forall>snap \<in> set (removing s). reg_ok ui (issued s) (fst ` set (uploading s) - {i}) snap"
    using ok unfolding sys_ok_def by (blast intro: reg_ok_mono)
  from ok have sub: "fst ` set (uploading s) - {i} \<subseteq> issued s" unfolding sys_ok_def by blast
  show ?thesis
    unfolding sys_ok_def
    by (simp add: r step [OF reg i] snaps sub distinct_map_remove1 [OF d])
qed

lemma sys_ok_toggle:
  "sys_ok ui s \<Longrightarrow> (ui \<longrightarrow> (\<exists>d \<in> set (registry s). doc_id d = i \<and> selection_enabled d)) \<Longrightarrow>
   sys_ok ui (s\<lparr>registry := toggled i (registry s)\<rparr>)"
  unfolding sys_ok_def by (simp add: reg_ok_toggled)

lemma sys_ok_remove_local: "sys_ok ui s \<Longrightarrow> sys_ok ui (s\<lparr>registry := without i (registry s)\<rparr>)"
  unfolding sys_ok_def by (simp add: reg_ok_without)

lemma sys_ok_remove_start:
  "sys_ok ui s \<Longrightarrow>
   sys_ok ui (s\<lparr>registry := without i (registry s), removing := registry s # removing s\<rparr>)"
  unfolding sys_ok_def by (simp add: reg_ok_without)

lemma sys_ok_remove_final:
  "sys_ok ui s \<Longrightarrow> sys_ok ui (s\<lparr>removing := remove1 snap (removing s)\<rparr>)"
  unfolding sys_ok_def using set_remove1_subset [of snap "removing s"] by auto

lemma sys_ok_remove_reverted:
  "sys_ok ui s \<Longrightarrow> snap \<in> set (removing s) \<Longrightarrow>
   sys_ok ui (s\<lparr>registry := snap, removing := remove1 snap (removing s)\<rparr>)"
  unfolding sys_ok_def using set_remove1_subset [of snap "removing s"] by auto

lemma reach_sys_ok: "reach v ui s \<Longrightarrow> sys_ok ui s"
proof (induction rule: reach.induct)
  case mount
  show ?case by (rule sys_ok_mount)
next
  case (upload_start s f i)
  then show ?case by (simp add: sys_ok_upload_start)
next
  case (session_created s i sid)
  then show ?case by (simp add: sys_ok_session_created)
next
  case (session_failed s i m)
  then show ?case by (simp add: sys_ok_finished reg_ok_failed_docs)
next
  case (upload_done s i)
  then show ?case by (simp add: sys_ok_finished reg_ok_set_complete)
next
  case (upload_failed s i m)
  then show ?case by (simp add: sys_ok_finished reg_ok_failed_docs)
next
  case (upload_done_then_failed s i m)
  then show ?case by (simp add: sys_ok_finished reg_ok_set_failed set_failed_after_complete)
next
  case (toggle s i)
  then show ?case by (simp add: sys_ok_toggle)
next
  case (remove_local s sid i)
  then show ?case by (simp add: sys_ok_remove_local)
next
  case (remove_start s sid i)
  then show ?case by (simp add: sys_ok_remove_start)
next
  case (remove_final s snap)
  then show ?case by (simp add: sys_ok_remove_final)
next
  case (remove_reverted s snap)
  then show ?case by (simp add: sys_ok_remove_reverted)
qed

text \<open>
  Why identifiers must not repeat: the selection update goes by identifier alone, so two
  documents with one identifier are toggled together.
\<close>

lemma toggled_same_id:
  "doc_id a = i \<Longrightarrow> doc_id b = i \<Longrightarrow> \<not> selected a \<Longrightarrow> \<not> selected b \<Longrightarrow>
   filter selected (toggled i [a, b]) = [a\<lparr>selected := True\<rparr>, b\<lparr>selected := True\<rparr>]"
  by (simp add: toggled_def)

lemma reach_selected_sys: "reach ChatApp_tsx True selected_sys"
proof -
  let ?d0 = "new_document ''k3x9'' report_pdf"
  have r1: "reach ChatApp_tsx True
      \<lparr>registry = [?d0\<lparr>progress := 25\<rparr>], uploading = [(''k3x9'', AwaitSession)], removing = [],
       issued = {''k3x9''}\<rparr>"
    using reach.upload_start [OF reach.mount, of report_pdf "''k3x9''" ChatApp_tsx True]
    by (simp add: report_pdf_def max_size_def set_progress_def first_progress_def new_document_def)
  have r2: "reach ChatApp_tsx True
      \<lparr>registry = [?d0\<lparr>progress := 50, sessionId := Some ''s1''\<rparr>],
       uploading = [(''k3x9'', AwaitUpload)], removing = [], issued = {''k3x9''}\<rparr>"
    using reach.session_created [OF r1, of "''k3x9''" "Some ''s1''"]
    by (simp add: set_session_def second_progress_def new_document_def)
  have r3: "reach ChatApp_tsx True
      \<lparr>registry = [?d0\<lparr>progress := 100, sessionId := Some ''s1'', uploaded := True\<rparr>],
       uploading = [], removing = [], issued = {''k3x9''}\<rparr>"
    using reach.upload_done [OF r2, of "''k3x9''"]
    by (simp add: set_complete_def new_document_def)
  show ?thesis
    using reach.toggle [OF r3, of "''k3x9''"]
    by (simp add: toggled_def new_document_def selection_enabled_def truthy_def selected_sys_def
        report_doc_def report_pdf_def)
qed

text \<open>
  C3. In every system state reachable from the empty registry by the steps of the
  handlers (adding a document on upload, the progress and state updates of a pending
  upload, toggling the selection, removing a document, and putting a snapshot back), at
  most one document of the registry is selected. This holds in both versions, whether
  or not the handlers are called through the control surface only. Identifiers are taken
  as issued without repetition; \<open>toggled_same_id\<close> above shows what two documents
  with one identifier would do.
\<close>

theorem at_most_one_selected:
  "reach v ui s \<Longrightarrow> length (filter selected (registry s)) \<le> 1"
proof -
  assume "reach v ui s"
  then have "sys_ok ui s" by (rule reach_sys_ok)
  then show ?thesis by (simp add: sys_ok_def reg_ok_def)
qed

theorem at_most_one_selected_witness:
  "reach ChatApp_tsx True selected_sys \<and> length (filter selected (registry selected_sys)) = 1"
  using at_most_one_selected [OF reach_selected_sys] reach_selected_sys
  by (simp add: selected_sys_def report_doc_def)

text \<open>
  \<^verbatim>\<open>toggleSelection\<close> itself checks nothing: called with the identifier of a document
  that is still uploading, it marks that document selected, in both versions.
\<close>

theorem toggle_unguarded_counterexample:
  "\<not> uploaded (report_doc\<lparr>uploaded := False, progress := 50, selected := False\<rparr>) \<and>
   documents (toggleSelection_part0
       (initial\<lparr>documents := [report_doc\<lparr>uploaded := False, progress := 50, selected := False\<rparr>]\<rparr>)
       ''k3x9'') =
     [report_doc\<lparr>uploaded := False, progress := 50, selected := True\<rparr>] \<and>
   documents (fst (toggleSelection
       (initial\<lparr>documents := [report_doc\<lparr>uploaded := False, progress := 50, selected := False\<rparr>]\<rparr>)
       ''k3x9'' (NetworkError []))) =
     [report_doc\<lparr>uploaded := False, progress := 50, selected := True\<rparr>] \<and>
   [report_doc\<lparr>uploaded := False, progress := 50, selected := True\<rparr>] \<noteq>
     documents (initial\<lparr>documents := [report_doc\<lparr>uploaded := False, progress := 50, selected := False\<rparr>]\<rparr>)"
  by (simp add: toggleSelection_part0_def toggleSelection_def toggled_def report_doc_def
      initial_def)

text \<open>
  C2, as the code has it. The guard is on the control surface, not in the handler: the
  selection button of a document is disabled unless the document is uploaded and has no
  error. In every system state reachable through the control surface, every selected
  document of the registry is uploaded and has no error, in both versions.
\<close>

theorem selected_only_when_enabled:
  "reach v True s \<Longrightarrow> \<forall>d \<in> set (registry s). selected d \<longrightarrow> uploaded d \<and> error d = None"
proof -
  assume "reach v True s"
  then have "sys_ok True s" by (rule reach_sys_ok)
  then show ?thesis by (simp add: sys_ok_def reg_ok_def doc_ok_def)
qed

theorem selected_only_when_enabled_witness:
  "reach ChatApp_tsx True selected_sys \<and> registry selected_sys = [report_doc] \<and>
   selected report_doc \<and> uploaded report_doc \<and> error report_doc = None"
  using selected_only_when_enabled [OF reach_selected_sys] reach_selected_sys
  by (simp add: selected_sys_def report_doc_def)

subsection \<open>The handlers as paths of steps\<close>

text \<open>
  Every complete run of a handler is a path of the step relation: from a reachable
  system state whose registry is the one the handler starts with, a reachable system
  state has the registry the handler ends with. So what holds of every reachable
  state holds in particular after any sequence of complete handler runs.
\<close>

lemma start_step:
  assumes r: "reach v ui s" and ty: "file_type f = ''application/pdf''"
    and sz: "\<not> file_size f > max_size" and fresh: "i \<notin> issued s"
  shows "\<exists>s1. reach v ui s1 \<and> (i, AwaitSession) \<in> set (uploading s1) \<and>
           registry s1 = set_progress i (first_progress v) (registry s @ [new_document i f])"
  by (rule exI, intro conjI, rule reach.upload_start [OF r ty sz fresh]) simp_all

lemma session_step:
  assumes r: "reach v ui s1" and mem: "(i, AwaitSession) \<in> set (uploading s1)"
  shows "\<exists>s2. reach v ui s2 \<and> (i, AwaitUpload) \<in> set (uploading s2) \<and>
           registry s2 = set_session i (second_progress v) sid (registry s1)"
  by (rule exI, intro conjI, rule reach.session_created [OF r mem, of sid]) simp_all

lemma upload_one_is_steps:
  assumes r: "reach ChatApp_tsx ui s" and reg: "registry s = documents st"
    and fresh: "new_id e \<notin> issued s"
  shows "\<exists>s'. reach ChatApp_tsx ui s' \<and> registry s' = documents (fst (upload_one st f e))"
proof (cases "file_type f = ''application/pdf'' \<and> \<not> file_size f > max_size")
  case False
  then have "documents (fst (upload_one st f e)) = documents st"
    by (auto simp: upload_one_def)
  with r reg show ?thesis by auto
next
  case True
  then have ty: "file_type f = ''application/pdf''" and sz: "\<not> file_size f > max_size" by simp_all
  let ?i = "new_id e"
  from start_step [OF r ty sz fresh] obtain s1 where
    s1: "reach ChatApp_tsx ui s1" "(?i, AwaitSession) \<in> set (uploading s1)"
      "registry s1 = set_progress ?i 25 (documents st @ [new_document ?i f])"
    by (auto simp: first_progress_def reg)
  show ?thesis
  proof (cases "create_session_try (session_res e)")
    case (Inl m)
    note step = reach.session_failed [OF s1(1,2), of m]
    from s1(3) Inl ty sz
    have "failed_docs ChatApp_tsx ?i m (registry s1) = documents (fst (upload_one st f e))"
      by (simp add: upload_one_def Let_def upload_failed_def failed_docs_def)
    with step show ?thesis by (intro exI conjI) (assumption, simp)
  next
    case (Inr sd)
    from session_step [OF s1(1,2), of "session_id sd"] obtain s2 where
      s2: "reach ChatApp_tsx ui s2" "(?i, AwaitUpload) \<in> set (uploading s2)"
        "registry s2 = set_session ?i 50 (session_id sd) (registry s1)"
      by (auto simp: second_progress_def)
    show ?thesis
    proof (cases "upload_try (upload_res e)")
      case (Inl m)
      note step = reach.upload_failed [OF s2(1,2), of m]
      from s2(3) s1(3) Inl Inr ty sz
      have "failed_docs ChatApp_tsx ?i m (registry s2) = documents (fst (upload_one st f e))"
        by (simp add: upload_one_def Let_def upload_failed_def failed_docs_def)
      with step show ?thesis by (intro exI conjI) (assumption, simp)
    next
      case data: (Inr data)
      show ?thesis
      proof (cases data)
        case None
        note step = reach.upload_done_then_failed [OF s2(1,2) refl,
            of "null_property_error ''session_info''"]
        from s2(3) s1(3) None data Inr ty sz
        have "set_failed ?i (null_property_error ''session_info'') (set_complete ?i (registry s2)) =
            documents (fst (upload_one st f e))"
          by (simp add: upload_one_def Let_def upload_failed_def)
        with step show ?thesis by (intro exI conjI) (assumption, simp)
      next
        case (Some d)
        note step = reach.upload_done [OF s2(1,2)]
        from s2(3) s1(3) Some data Inr ty sz
        have "set_complete ?i (registry s2) = documents (fst (upload_one st f e))"
          by (simp add: upload_one_def Let_def split: option.split)
        with step show ?thesis by (intro exI conjI) (assumption, simp)
      qed
    qed
  qed
qed


lemma upload_one_part0_is_steps:
  assumes r: "reach Part_000 ui s" and reg: "registry s = documents st"
    and fresh: "new_id e \<notin> issued s"
  shows "\<exists>s'. reach Part_000 ui s' \<and> registry s' = documents (fst (upload_one_part0 st f e))"
proof (cases "file_type f = ''application/pdf'' \<and> \<not> file_size f > max_size")
  case False
  then have "documents (fst (upload_one_part0 st f e)) = documents st"
    by (auto simp: upload_one_part0_def)
  with r reg show ?thesis by auto
next
  case True
  then have ty: "file_type f = ''application/pdf''" and sz: "\<not> file_size f > max_size" by simp_all
  let ?i = "new_id e"
  from start_step [OF r ty sz fresh] obtain s1 where
    s1: "reach Part_000 ui s1" "(?i, AwaitSession) \<in> set (uploading s1)"
      "registry s1 = set_progress ?i 30 (documents st @ [new_document ?i f])"
    by (auto simp: first_progress_def reg)
  show ?thesis
  proof (cases "create_session_try_part0 (session_res e)")
    case (Inl m)
    note step = reach.session_failed [OF s1(1,2), of m]
    from s1(3) Inl ty sz
    have "failed_docs Part_000 ?i m (registry s1) = documents (fst (upload_one_part0 st f e))"
      by (simp add: upload_one_part0_def Let_def failed_docs_def)
    with step show ?thesis by (intro exI conjI) (assumption, simp)
  next
    case (Inr sid)
    from session_step [OF s1(1,2), of sid] obtain s2 where
      s2: "reach Part_000 ui s2" "(?i, AwaitUpload) \<in> set (uploading s2)"
        "registry s2 = set_session ?i 60 sid (registry s1)"
      by (auto simp: second_progress_def)
    show ?thesis
    proof (cases "upload_try_part0 (upload_res e)")
      case (Some m)
      note step = reach.upload_failed [OF s2(1,2), of m]
      from s2(3) s1(3) Some Inr ty sz
      have "failed_docs Part_000 ?i m (registry s2) = documents (fst (upload_one_part0 st f e))"
        by (simp add: upload_one_part0_def Let_def failed_docs_def)
      with step show ?thesis by (intro exI conjI) (assumption, simp)
    next
      case None
      note step = reach.upload_done [OF s2(1,2)]
      from s2(3) s1(3) None Inr ty sz
      have "set_complete ?i (registry s2) = documents (fst (upload_one_part0 st f e))"
        by (simp add: upload_one_part0_def Let_def)
      with step show ?thesis by (intro exI conjI) (assumption, simp)
    qed
  qed
qed

lemma toggleSelection_documents:
  "documents (fst (toggleSelection st i info)) = toggled i (documents st)"
  by (simp add: toggleSelection_def Let_def updateSessionInfo_keeps split: option.split)

lemma toggleSelection_is_step:
  assumes r: "reach v ui s" and reg: "registry s = documents st"
    and gate: "ui \<longrightarrow> (\<exists>d \<in> set (documents st). doc_id d = i \<and> selection_enabled d)"
  shows "\<exists>s'. reach v ui s' \<and> registry s' = documents (fst (toggleSelection st i info)) \<and>
           registry s' = documents (toggleSelection_part0 st i)"
proof -
  from gate reg have "ui \<longrightarrow> (\<exists>d \<in> set (registry s). doc_id d = i \<and> selection_enabled d)" by simp
  from reach.toggle [OF r this] show ?thesis
    by (intro exI conjI, assumption)
       (simp_all add: toggleSelection_documents toggleSelection_part0_def reg)
qed

lemma removeDocument_documents:
  "documents (fst (removeDocument st i sid res)) =
     (if truthy sid \<and> delete_try res \<noteq> None then documents st else without i (documents st))"
  by (cases sid; cases "delete_try res")
     (simp_all add: removeDocument_def Let_def truthy_def clear_info_if_selected_keeps)

lemma removeDocument_part0_documents:
  "documents (fst (removeDocument_part0 st i sid res)) =
     (if truthy sid \<and> (\<exists>st stt b. res = Response st stt b \<and> \<not> res_ok st) then documents st
      else without i (documents st))"
  by (cases sid; cases res) (simp_all add: removeDocument_part0_def Let_def truthy_def)

lemma removal_steps:
  assumes r: "reach v ui s"
    and button: "ui \<longrightarrow> (\<exists>d \<in> set (registry s). doc_id d = i \<and> sessionId d = sid)"
  shows "\<exists>s'. reach v ui s' \<and> registry s' = without i (registry s)"
    and "truthy sid \<Longrightarrow> \<exists>s'. reach v ui s' \<and> registry s' = registry s"
proof -
  show "\<exists>s'. reach v ui s' \<and> registry s' = without i (registry s)"
  proof (cases "truthy sid")
    case False
    from reach.remove_local [OF r False button] show ?thesis
      by (intro exI conjI, assumption) simp
  next
    case True
    from reach.remove_start [OF r True button] show ?thesis
      by (intro exI conjI, assumption) simp
  qed
  assume t: "truthy sid"
  note start = reach.remove_start [OF r t button]
  have "registry s \<in> set (removing (s\<lparr>registry := without i (registry s),
      removing := registry s # removing s\<rparr>))" by simp
  from reach.remove_reverted [OF start this]
  show "\<exists>s'. reach v ui s' \<and> registry s' = registry s"
    by (intro exI conjI, assumption) simp
qed

lemma removeDocument_is_steps:
  assumes r: "reach v ui s" and reg: "registry s = documents st"
    and button: "ui \<longrightarrow> (\<exists>d \<in> set (documents st). doc_id d = i \<and> sessionId d = sid)"
  shows "\<exists>s'. reach v ui s' \<and> registry s' = documents (fst (removeDocument st i sid res))"
    and "\<exists>s'. reach v ui s' \<and> registry s' = documents (fst (removeDocument_part0 st i sid res))"
proof -
  from button reg have b: "ui \<longrightarrow> (\<exists>d \<in> set (registry s). doc_id d = i \<and> sessionId d = sid)"
    by simp
  note steps = removal_steps [OF r b]
  show "\<exists>s'. reach v ui s' \<and> registry s' = documents (fst (removeDocument st i sid res))"
    using steps by (simp add: removeDocument_documents reg)
  show "\<exists>s'. reach v ui s' \<and> registry s' = documents (fst (removeDocument_part0 st i sid res))"
    using steps by (simp add: removeDocument_part0_documents reg)
qed

end
